theory Spec2Isabelle
  imports Main "HOL-Library.AList"
begin

section \<open>Python values\<close>

text \<open>
  The classifier decision and the stored items are Python dicts of JSON-like values.
  A dict is an association list in insertion order; \<open>d.get(k, default)\<close> is
  \<open>py_get\<close>, \<open>d[k] = v\<close> is \<open>setitem\<close>. JSON numbers are kept as integers: the
  code only ever tests a number for truth.
\<close>

datatype pyval =
    PyNone
  | PyBool bool
  | PyInt int
  | PyStr string
  | PyList "pyval list"
  | PyDict "(string \<times> pyval) list"

type_synonym pydict = "(string \<times> pyval) list"

datatype exc =
    TypeError
  | IndexError
  | AttributeError
  | ValueError
  | JSONDecodeError
  | RateLimitError
  | APIStatusError nat
  | APIConnectionError
  | HTTPError
  | ClientError
  | TwilioRestException
  | SQLAlchemyError

fun truthy :: "pyval \<Rightarrow> bool" where
  "truthy PyNone = False"
| "truthy (PyBool b) = b"
| "truthy (PyInt n) = (n \<noteq> 0)"
| "truthy (PyStr s) = (s \<noteq> [])"
| "truthy (PyList xs) = (xs \<noteq> [])"
| "truthy (PyDict d) = (d \<noteq> [])"

fun py_len :: "pyval \<Rightarrow> nat option" where
  "py_len (PyStr s) = Some (length s)"
| "py_len (PyList xs) = Some (length xs)"
| "py_len (PyDict d) = Some (length d)"
| "py_len PyNone = None"
| "py_len (PyBool b) = None"
| "py_len (PyInt n) = None"

definition py_get :: "pydict \<Rightarrow> string \<Rightarrow> pyval \<Rightarrow> pyval" where
  "py_get d k dflt = (case map_of d k of None \<Rightarrow> dflt | Some v \<Rightarrow> v)"

definition setitem :: "string \<Rightarrow> pyval \<Rightarrow> pydict \<Rightarrow> pydict" where
  "setitem k v d = AList.update k v d"

section \<open>Conversation classifier (llm_service.py)\<close>

datatype direction = Inbound | Outbound

text \<open>
  One entry of the history handed to the classifier:
  \<open>{"type": "text", "text": t, "direction": d}\<close> or
  \<open>{"type": "media", "url": u, "direction": d}\<close>.
\<close>

datatype message = TextMsg pyval direction | MediaMsg pyval direction

text \<open>
  What one call of \<open>client.chat.completions.create\<close> does: it returns a response whose
  \<open>choices[0].message.content\<close> is a string (\<open>None\<close> when that content is missing), or
  it raises.
\<close>

datatype completion_outcome = Completion "string option" | Raises exc

text \<open>
  The collaborators of one \<open>analyze_conversation\<close> call: the provider, answering the
  k-th attempt for the given history (the prompt is a function of the history),
  \<open>json.loads\<close> (\<open>None\<close> when it raises), the clock reading of \<open>datetime.now()\<close> in
  seconds, and \<open>isoformat\<close>.
\<close>

record llm_env =
  create :: "message list \<Rightarrow> nat \<Rightarrow> completion_outcome"
  json_loads :: "string \<Rightarrow> pyval option"
  now :: int
  isoformat :: "int \<Rightarrow> string"

record analysis =
  decision :: pydict
  model_calls :: nat
  slept :: nat

definition max_attempts :: nat where
  "max_attempts = 3"

definition wait_seconds :: nat where
  "wait_seconds = 1"

definition too_long_reply :: string where
  "too_long_reply =
     ''Message too long. Please shorten it to under 1000 characters and try again.''"

definition fallback_reply :: string where
  "fallback_reply = ''Failed to process your message. Please try again.''"

definition suspension_reply :: string where
  "suspension_reply =
     ''We detected misuse of the system, and your access has been temporarily suspended for 1 minute. Thank you for your understanding.''"

definition fixed_decision :: "string \<Rightarrow> bool \<Rightarrow> pydict" where
  "fixed_decision reply persist =
     [(''is_product_name_present'', PyBool False),
      (''is_feedback_present'', PyBool False),
      (''did_user_confirm_media_availability'', PyBool False),
      (''is_media_present'', PyBool False),
      (''reply'', PyStr reply),
      (''product_name'', PyStr ''''),
      (''feedback'', PyStr ''''),
      (''media_url'', PyStr ''''),
      (''is_feedback_session_complete'', PyBool False),
      (''is_x_rated_conversation'', PyBool False),
      (''is_crime_rated_conversation'', PyBool False),
      (''is_immoral_conversation'', PyBool False),
      (''is_too_short'', PyBool False),
      (''is_irrelevant'', PyBool False),
      (''should_persist_reply'', PyBool persist)]"

definition too_long_decision :: pydict where
  "too_long_decision = fixed_decision too_long_reply True"

definition fallback_decision :: pydict where
  "fallback_decision = fixed_decision fallback_reply False"

text \<open>
  The pre-filter loop (lines 148-172): \<open>Inr True\<close> when it returns the fixed decision,
  \<open>Inr False\<close> when it falls through, \<open>Inl\<close> when \<open>len\<close> raises on a text that has no
  length.
\<close>

fun exceeds_limit :: "message list \<Rightarrow> exc + bool" where
  "exceeds_limit [] = Inr False"
| "exceeds_limit (TextMsg t d # rest) =
     (if truthy t then
        (case py_len t of
           None \<Rightarrow> Inl TypeError
         | Some n \<Rightarrow> if n > 1000 then Inr True else exceeds_limit rest)
      else exceeds_limit rest)"
| "exceeds_limit (MediaMsg u d # rest) = exceeds_limit rest"

text \<open>
  The retry loop (lines 176-213) over \<open>range(max_attempts)\<close>. The result is the
  response (\<open>None\<close> if the loop ends without one) or the exception that leaves the
  loop, with the number of calls made and the seconds slept.
\<close>

fun attempts ::
  "(nat \<Rightarrow> completion_outcome) \<Rightarrow> nat list \<Rightarrow> nat \<Rightarrow> nat \<Rightarrow>
     (exc + string option option) \<times> nat \<times> nat" where
  "attempts call [] calls zs = (Inr None, calls, zs)"
| "attempts call (attempt_index # rest) calls zs =
     (case call attempt_index of
        Completion c \<Rightarrow> (Inr (Some c), Suc calls, zs)
      | Raises RateLimitError \<Rightarrow>
          (if attempt_index < max_attempts - 1
           then attempts call rest (Suc calls) (zs + wait_seconds)
           else (Inl RateLimitError, Suc calls, zs))
      | Raises (APIStatusError code) \<Rightarrow>
          (if code = 429 \<and> attempt_index < max_attempts - 1
           then attempts call rest (Suc calls) (zs + wait_seconds)
           else (Inl (APIStatusError code), Suc calls, zs))
      | Raises e \<Rightarrow> (Inl e, Suc calls, zs))"

definition any_safety_flag :: "pydict \<Rightarrow> bool" where
  "any_safety_flag result =
     (truthy (py_get result ''is_x_rated_conversation'' (PyBool False))
      \<or> truthy (py_get result ''is_crime_rated_conversation'' (PyBool False))
      \<or> truthy (py_get result ''is_immoral_conversation'' (PyBool False))
      \<or> truthy (py_get result ''is_irrelevant'' (PyBool False)))"

definition suspend :: "llm_env \<Rightarrow> pydict \<Rightarrow> pydict" where
  "suspend env result =
     setitem ''reopen_session'' (PyBool True)
       (setitem ''user_limited_until'' (PyStr (isoformat env (now env + 60)))
         (setitem ''reply'' (PyStr suspension_reply)
           (setitem ''should_persist_reply'' (PyBool False) result)))"

text \<open>Lines 215-249: decode the response and apply the safety override.\<close>

definition interpret_response :: "llm_env \<Rightarrow> string option option \<Rightarrow> exc + pydict" where
  "interpret_response env response =
     (case response of
        None \<Rightarrow> Inl AttributeError
      | Some None \<Rightarrow> Inl TypeError
      | Some (Some content) \<Rightarrow>
          (case json_loads env content of
             None \<Rightarrow> Inl JSONDecodeError
           | Some (PyDict result) \<Rightarrow>
               (if any_safety_flag result then Inr (suspend env result) else Inr result)
           | Some other \<Rightarrow> Inl AttributeError))"

text \<open>The body of the \<open>try\<close> block of \<open>analyze_conversation\<close>.\<close>

definition try_analyze :: "llm_env \<Rightarrow> message list \<Rightarrow> (exc + pydict) \<times> nat \<times> nat" where
  "try_analyze env messages =
     (case exceeds_limit messages of
        Inl e \<Rightarrow> (Inl e, 0, 0)
      | Inr True \<Rightarrow> (Inr too_long_decision, 0, 0)
      | Inr False \<Rightarrow>
          (case attempts (create env messages) [0..<max_attempts] 0 0 of
             (Inl e, calls, zs) \<Rightarrow> (Inl e, calls, zs)
           | (Inr response, calls, zs) \<Rightarrow> (interpret_response env response, calls, zs)))"

text \<open>
  \<open>analyze_conversation\<close>: the \<open>try\<close> block with its \<open>except Exception\<close> handler
  (lines 251-269). \<open>Inl\<close> would be an exception that reaches the caller.
\<close>

definition analyze_conversation :: "llm_env \<Rightarrow> message list \<Rightarrow> exc + analysis" where
  "analyze_conversation env messages =
     (case try_analyze env messages of
        (Inl e, calls, zs) \<Rightarrow>
          Inr \<lparr>decision = fallback_decision, model_calls = calls, slept = zs\<rparr>
      | (Inr result, calls, zs) \<Rightarrow>
          Inr \<lparr>decision = result, model_calls = calls, slept = zs\<rparr>)"

section \<open>Stores and collaborators of the chat service (chat_service.py)\<close>

text \<open>
  An item of the \<open>sessions\<close> table. Every attribute but the key can be missing: an
  \<open>update_item\<close> on a key that is not there creates an item holding only what the
  update sets.
\<close>

record session_item =
  session_id :: string
  sender_id :: "string option"
  status :: "string option"
  created_at :: "int option"
  updated_at :: "int option"
  user_limited_until :: "pyval option"

text \<open>
  An item of the \<open>chats\<close> table: \<open>content_text\<close> is \<open>content.get("text")\<close>,
  \<open>media_items\<close> holds \<open>media.get("url")\<close> of each entry of
  \<open>content["media_items"]\<close>.
\<close>

record chat_item =
  chat_sender_id :: string
  chat_message_id :: string
  chat_type :: string
  chat_session_id :: string
  chat_created_at :: int
  content_text :: "pyval option"
  media_items :: "pyval list"
  chat_reply_stage :: "pyval option"

text \<open>
  Modelled from the spec: the \<open>Feedback\<close> model (\<open>src/models/feedback.py\<close>) is not among
  the source files. A feedback record has the attributes the spec lists for it and
  \<open>save_feedback_data\<close> passes to its constructor: sender, product name, feedback text
  and media URLs.
\<close>

record feedback =
  fb_sender_id :: pyval
  fb_product_name :: pyval
  fb_feedback_text :: pyval
  fb_media_urls :: pyval

text \<open>
  The durable state the service works on. \<open>session_table\<close> lists the sessions most
  recent first, \<open>chat_table\<close> the chat messages in ascending creation order;
  \<open>outbox\<close> holds the messages the channel accepted, as (from, to, body).
\<close>

record world =
  session_table :: "session_item list"
  chat_table :: "chat_item list"
  feedback_db :: "feedback list"
  outbox :: "(string \<times> string \<times> pyval) list"

text \<open>The external calls of one reply cycle; each is made at most once per cycle.\<close>

datatype call_site =
    QuerySessions
  | QueryChats
  | PutNewSession
  | UpdateCompleted
  | PutReopened
  | UpdateLimited
  | SendMessage
  | PutChat
  | CommitFeedback

datatype uuid_site = NewSessionId | ReopenedSessionId | MessageId

record media =
  sid :: string
  uri :: string

record http_response =
  status_code :: nat
  content :: "string option"
  content_type :: "string option"

text \<open>
  The collaborators of one reply cycle: the classifier's, which external call raises,
  what \<open>uuid.uuid4()\<close> and \<open>int(time.time())\<close> return, the page size of the chat
  store (one less than it), the provider's media listing, the HTTP download, the
  object-storage upload, and the configuration.
\<close>

record env =
  llm :: llm_env
  fails :: "call_site \<Rightarrow> bool"
  uuid4 :: "uuid_site \<Rightarrow> string"
  time :: int
  page_limit :: nat
  media_list :: "string \<Rightarrow> exc + media list"
  requests_get :: "string \<Rightarrow> exc + http_response"
  put_object_fails :: "string \<Rightarrow> bool"
  from_number :: string
  s3_bucket_name :: string

subsection \<open>String helpers\<close>

text \<open>\<open>s.split(sep)\<close> for a one-character separator.\<close>

fun split :: "char \<Rightarrow> string \<Rightarrow> string list" where
  "split sep [] = [[]]"
| "split sep (c # cs) =
     (if c = sep then [] # split sep cs
      else (case split sep cs of [] \<Rightarrow> [[c]] | p # ps \<Rightarrow> (c # p) # ps))"

text \<open>\<open>s.replace(old, new)\<close> for a non-empty \<open>old\<close>.\<close>

function replace :: "string \<Rightarrow> string \<Rightarrow> string \<Rightarrow> string" where
  "replace old new [] = []"
| "replace old new (c # cs) =
     (if old \<noteq> [] \<and> take (length old) (c # cs) = old
      then new @ replace old new (drop (length old) (c # cs))
      else c # replace old new cs)"
  by pat_completeness auto
termination
  by (relation "measure (\<lambda>(old, new, s). length s)") (auto simp: neq_Nil_conv)

definition startswith :: "string \<Rightarrow> string \<Rightarrow> bool" where
  "startswith s p = (take (length p) s = p)"

subsection \<open>Session store\<close>

text \<open>
  The session store is an external service. \<open>put_item\<close> replaces the item with the
  same key; a new item is the most recent one. \<open>update_item\<close> changes the item with
  the key, or creates it.
\<close>

definition put_item :: "session_item \<Rightarrow> session_item list \<Rightarrow> session_item list" where
  "put_item item tbl = item # filter (\<lambda>s. session_id s \<noteq> session_id item) tbl"

definition update_item ::
  "string \<Rightarrow> (session_item \<Rightarrow> session_item) \<Rightarrow> session_item list \<Rightarrow> session_item list" where
  "update_item key f tbl =
     (if list_ex (\<lambda>s. session_id s = key) tbl
      then map (\<lambda>s. if session_id s = key then f s else s) tbl
      else tbl @ [f \<lparr>session_id = key, sender_id = None, status = None,
                      created_at = None, updated_at = None, user_limited_until = None\<rparr>])"

definition is_active_of :: "string \<Rightarrow> session_item \<Rightarrow> bool" where
  "is_active_of sender s = (sender_id s = Some sender \<and> status s = Some ''active'')"

text \<open>
  The query of lines 257-263 on the index by sender, most recent first, with \<open>Limit=1\<close>
  and the filter on the status. The store applies the limit to the items it reads and
  the filter to what it has read: the query gives the sender's most recent session if
  that one is active, and nothing otherwise, also when an older session is active.
\<close>

definition sender_sessions :: "session_item list \<Rightarrow> string \<Rightarrow> session_item list" where
  "sender_sessions tbl sender = filter (\<lambda>s. sender_id s = Some sender) tbl"

definition query_active :: "session_item list \<Rightarrow> string \<Rightarrow> session_item list" where
  "query_active tbl sender =
     filter (\<lambda>s. status s = Some ''active'') (take 1 (sender_sessions tbl sender))"

definition new_session :: "string \<Rightarrow> string \<Rightarrow> int \<Rightarrow> session_item" where
  "new_session new_session_id sender t =
     \<lparr>session_id = new_session_id, sender_id = Some sender, status = Some ''active'',
      created_at = Some t, updated_at = None, user_limited_until = None\<rparr>"

subsection \<open>Chat store\<close>

definition session_chats :: "chat_item list \<Rightarrow> string \<Rightarrow> chat_item list" where
  "session_chats tbl key = filter (\<lambda>c. chat_session_id c = key) tbl"

text \<open>
  The paginated read (lines 273-287): each query returns the next page of the
  session's items, and a continuation key while items remain.
\<close>

function fetch_pages ::
  "chat_item list \<Rightarrow> nat \<Rightarrow> chat_item list \<Rightarrow> nat \<Rightarrow> chat_item list" where
  "fetch_pages items limit messages last_key =
     (if last_key + Suc limit < length items
      then fetch_pages items limit (messages @ take (Suc limit) (drop last_key items))
             (last_key + Suc limit)
      else messages @ take (Suc limit) (drop last_key items))"
  by pat_completeness auto
termination
  by (relation "measure (\<lambda>(items, limit, messages, last_key). length items - last_key)") auto

declare fetch_pages.simps [simp del]

text \<open>
  Writing a chat message: the item with the same message id, taken to be the table's
  key, is replaced, and the new item is the last in creation order.
\<close>

definition put_chat :: "chat_item \<Rightarrow> chat_item list \<Rightarrow> chat_item list" where
  "put_chat item tbl =
     filter (\<lambda>c. chat_message_id c \<noteq> chat_message_id item) tbl @ [item]"

text \<open>Lines 297-315: one stored message becomes its text entry and its media entries.\<close>

definition transform :: "chat_item \<Rightarrow> message list" where
  "transform msg =
     (let direction = (if chat_type msg = ''inbound'' then Inbound else Outbound)
      in (case content_text msg of
            None \<Rightarrow> []
          | Some text \<Rightarrow> if truthy text then [TextMsg text direction] else [])
         @ map (\<lambda>url. MediaMsg url direction) (media_items msg))"

section \<open>Media relay (chat_service.py, lines 72-176)\<close>

text \<open>
  \<open>upload_to_s3\<close>: the key is built from the identifiers and the content type's last
  segment; a failing \<open>put_object\<close> is caught and gives \<open>None\<close>.
\<close>

definition upload_to_s3 :: "env \<Rightarrow> string \<Rightarrow> string \<Rightarrow> string \<Rightarrow> string \<Rightarrow> string option" where
  "upload_to_s3 env body message_sid media_sid ctype =
     (let extension = last (split CHR ''/'' ctype);
          s3_key = ''feedback-media/'' @ message_sid @ ''/'' @ media_sid @ ''.'' @ extension
      in if put_object_fails env s3_key then None
         else Some (''https://'' @ s3_bucket_name env @ ''.s3.amazonaws.com/'' @ s3_key))"

text \<open>
  Lines 134-154 of \<open>download_single_media\<close>: download the content found at
  \<open>media_url\<close> and upload it.
\<close>

definition fetch_and_upload ::
  "env \<Rightarrow> string \<Rightarrow> string \<Rightarrow> string \<Rightarrow> exc + pydict option" where
  "fetch_and_upload env media_url message_sid media_sid =
     (case requests_get env media_url of
        Inl e \<Rightarrow> Inl e
      | Inr response \<Rightarrow>
          (if 400 \<le> status_code response \<and> status_code response < 600
           then Inl HTTPError
           else
             (case content response of
                None \<Rightarrow> Inl HTTPError
              | Some body \<Rightarrow>
                  (case upload_to_s3 env body message_sid media_sid
                          (case content_type response of
                             None \<Rightarrow> ''application/octet-stream''
                           | Some ct \<Rightarrow> ct) of
                     None \<Rightarrow> Inr None
                   | Some s3_url \<Rightarrow>
                       (if s3_url \<noteq> []
                        then Inr (Some [(''s3_url'', PyStr s3_url)])
                        else Inr None)))))"

text \<open>
  Lines 112-132: the identifiers are the third-last and last segment of the reference;
  the media is looked up in the provider's listing of the message.
\<close>

definition lookup_and_relay :: "env \<Rightarrow> string \<Rightarrow> exc + pydict option" where
  "lookup_and_relay env u =
     (let parts = split CHR ''/'' u
      in if length parts < 3 then Inl IndexError
         else
           (case media_list env (parts ! (length parts - 3)) of
              Inl e \<Rightarrow> Inl e
            | Inr listing \<Rightarrow>
                (case find (\<lambda>m. sid m = last parts) listing of
                   None \<Rightarrow> Inl ValueError
                 | Some m \<Rightarrow>
                     fetch_and_upload env
                       (''https://api.twilio.com'' @ replace ''.json'' '''' (uri m))
                       (parts ! (length parts - 3)) (last parts))))"

text \<open>The body of the \<open>try\<close> block: a reference that is not a string has no \<open>split\<close>.\<close>

fun try_download :: "env \<Rightarrow> pyval \<Rightarrow> exc + pydict option" where
  "try_download env (PyStr u) = lookup_and_relay env u"
| "try_download env PyNone = Inl AttributeError"
| "try_download env (PyBool b) = Inl AttributeError"
| "try_download env (PyInt n) = Inl AttributeError"
| "try_download env (PyList xs) = Inl AttributeError"
| "try_download env (PyDict d) = Inl AttributeError"

text \<open>
  \<open>download_single_media\<close>: the \<open>try\<close> block with its handler (lines 155-157), which
  logs and returns \<open>None\<close>. \<open>Inl\<close> would be an exception that reaches the caller.
\<close>

definition download_single_media :: "env \<Rightarrow> pyval \<Rightarrow> exc + pydict option" where
  "download_single_media env url =
     (case try_download env url of
        Inl e \<Rightarrow> Inr None
      | Inr r \<Rightarrow> Inr r)"

text \<open>What \<open>for url in media_urls\<close> iterates over.\<close>

fun py_iter :: "pyval \<Rightarrow> pyval list" where
  "py_iter (PyList xs) = xs"
| "py_iter (PyStr s) = map (\<lambda>c. PyStr [c]) s"
| "py_iter (PyDict d) = map (\<lambda>kv. PyStr (fst kv)) d"
| "py_iter PyNone = []"
| "py_iter (PyBool b) = []"
| "py_iter (PyInt n) = []"

text \<open>
  Line 173: \<open>[r.get("s3_url") for r in results if r and r.get("s3_url")]\<close> over what
  \<open>gather(..., return_exceptions=True)\<close> returned; an exception object among the
  results has no \<open>get\<close>.
\<close>

fun saved_urls :: "(exc + pydict option) list \<Rightarrow> exc + pyval list" where
  "saved_urls [] = Inr []"
| "saved_urls (Inl e # rs) = Inl AttributeError"
| "saved_urls (Inr None # rs) = saved_urls rs"
| "saved_urls (Inr (Some r) # rs) =
     (if r \<noteq> [] \<and> truthy (py_get r ''s3_url'' PyNone)
      then (case saved_urls rs of
              Inl e \<Rightarrow> Inl e
            | Inr urls \<Rightarrow> Inr (py_get r ''s3_url'' PyNone # urls))
      else saved_urls rs)"

definition save_feedback_data :: "env \<Rightarrow> world \<Rightarrow> pydict \<Rightarrow> (exc + feedback) \<times> world" where
  "save_feedback_data env w feedback_data =
     (let fb = \<lparr>fb_sender_id = py_get feedback_data ''sender_id'' PyNone,
                fb_product_name = py_get feedback_data ''product_name'' PyNone,
                fb_feedback_text = py_get feedback_data ''feedback_text'' PyNone,
                fb_media_urls = py_get feedback_data ''media_urls'' (PyList [])\<rparr>
      in if fails env CommitFeedback then (Inl SQLAlchemyError, w)
         else (Inr fb, w\<lparr>feedback_db := feedback_db w @ [fb]\<rparr>))"

definition feedback_model_data :: "pydict \<Rightarrow> pydict" where
  "feedback_model_data feedback_data =
     [(''sender_id'', py_get feedback_data ''sender_id'' PyNone),
      (''product_name'', py_get feedback_data ''product_name'' PyNone),
      (''feedback_text'', py_get feedback_data ''feedback_text'' PyNone),
      (''media_urls'', py_get feedback_data ''media_urls'' (PyList []))]"

definition download_media_files :: "env \<Rightarrow> world \<Rightarrow> pydict \<Rightarrow> (exc + unit) \<times> world" where
  "download_media_files env w feedback_data =
     (case py_len (py_get feedback_data ''media_urls'' (PyList [])) of
        None \<Rightarrow> (Inl TypeError, w)
      | Some n \<Rightarrow>
          (if n > 0 then
             (case saved_urls (map (download_single_media env)
                                (py_iter (py_get feedback_data ''media_urls'' (PyList [])))) of
                Inl e \<Rightarrow> (Inl e, w)
              | Inr saved \<Rightarrow>
                  (case save_feedback_data env w
                          (setitem ''media_urls'' (PyList saved)
                             (feedback_model_data feedback_data)) of
                     (Inl e, w1) \<Rightarrow> (Inl e, w1)
                   | (Inr fb, w1) \<Rightarrow> (Inr (), w1)))
           else
             (case save_feedback_data env w (feedback_model_data feedback_data) of
                (Inl e, w1) \<Rightarrow> (Inl e, w1)
              | (Inr fb, w1) \<Rightarrow> (Inr (), w1))))"

section \<open>Session orchestrator (chat_service.py, lines 178-454)\<close>

definition send_whatsapp_message ::
  "env \<Rightarrow> world \<Rightarrow> string \<Rightarrow> string \<Rightarrow> pyval \<Rightarrow> (exc + unit) \<times> world" where
  "send_whatsapp_message env w from_nr to_nr reply_message =
     (if fails env SendMessage then (Inl TwilioRestException, w)
      else (Inr (), w\<lparr>outbox := outbox w @ [(from_nr, to_nr, reply_message)]\<rparr>))"

definition save_chat_message :: "env \<Rightarrow> world \<Rightarrow> chat_item \<Rightarrow> (exc + unit) \<times> world" where
  "save_chat_message env w message_data =
     (if fails env PutChat then (Inl ClientError, w)
      else (Inr (), w\<lparr>chat_table := put_chat message_data (chat_table w)\<rparr>))"

definition mark_session_as_limited ::
  "env \<Rightarrow> world \<Rightarrow> string \<Rightarrow> pyval \<Rightarrow> (exc + unit) \<times> world" where
  "mark_session_as_limited env w key limited_until =
     (if fails env UpdateLimited then (Inl ClientError, w)
      else (Inr (),
            w\<lparr>session_table :=
                update_item key
                  (\<lambda>s. s\<lparr>user_limited_until := Some limited_until, updated_at := Some (time env)\<rparr>)
                  (session_table w)\<rparr>))"

text \<open>
  \<open>mark_session_as_completed\<close> (lines 215-250): with \<open>reopen_session\<close> it puts a new
  active session and returns its id; otherwise it sets the status of the given session
  to completed and returns the given id. A store failure is logged and raised again.
\<close>

definition mark_session_as_completed ::
  "env \<Rightarrow> world \<Rightarrow> string \<Rightarrow> string \<Rightarrow> bool \<Rightarrow> (exc + string) \<times> world" where
  "mark_session_as_completed env w sender key reopen_session =
     (if reopen_session then
        (if fails env PutReopened then (Inl ClientError, w)
         else (Inr (uuid4 env ReopenedSessionId),
               w\<lparr>session_table :=
                   put_item (new_session (uuid4 env ReopenedSessionId) sender (time env))
                     (session_table w)\<rparr>))
      else
        (if fails env UpdateCompleted then (Inl ClientError, w)
         else (Inr key,
               w\<lparr>session_table :=
                   update_item key
                     (\<lambda>s. s\<lparr>status := Some ''completed'', updated_at := Some (time env)\<rparr>)
                     (session_table w)\<rparr>)))"

text \<open>
  \<open>get_user_unresolved_session_message\<close> (lines 252-330): \<open>None\<close> when the query
  returns no session, and also when the session it returns has no stored message.
\<close>

definition get_user_unresolved_session_message ::
  "env \<Rightarrow> world \<Rightarrow> string \<Rightarrow> exc + (message list \<times> string) option" where
  "get_user_unresolved_session_message env w sender =
     (if fails env QuerySessions then Inl ClientError
      else
        (case query_active (session_table w) sender of
           [] \<Rightarrow> Inr None
         | active_session # others \<Rightarrow>
             (if fails env QueryChats then Inl ClientError
              else if fetch_pages (session_chats (chat_table w) (session_id active_session))
                        (page_limit env) [] 0 = []
              then Inr None
              else Inr (Some (concat (map transform
                                (fetch_pages
                                   (session_chats (chat_table w) (session_id active_session))
                                   (page_limit env) [] 0)),
                              session_id active_session)))))"

text \<open>Lines 336-352 of \<open>get_reply_message\<close>: the session and history of this cycle.\<close>

definition resolve_conversation ::
  "env \<Rightarrow> world \<Rightarrow> string \<Rightarrow> (exc + message list \<times> string) \<times> world" where
  "resolve_conversation env w sender =
     (case get_user_unresolved_session_message env w sender of
        Inl e \<Rightarrow> (Inl e, w)
      | Inr None \<Rightarrow>
          (if fails env PutNewSession then (Inl ClientError, w)
           else (Inr ([], uuid4 env NewSessionId),
                 w\<lparr>session_table :=
                     put_item (new_session (uuid4 env NewSessionId) sender (time env))
                       (session_table w)\<rparr>))
      | Inr (Some (messages, key)) \<Rightarrow> (Inr (messages, key), w))"

text \<open>Lines 355-362: the feedback payload.\<close>

definition feedback_payload :: "pydict \<Rightarrow> pydict" where
  "feedback_payload result =
     (if truthy (py_get result ''is_feedback_session_complete'' (PyBool False))
      then [(''product_name'', py_get result ''product_name'' (PyStr '''')),
            (''feedback_text'', py_get result ''feedback'' (PyStr '''')),
            (''media_urls'', py_get result ''media_urls'' (PyList []))]
      else [])"

text \<open>Lines 371-376: the three session updates, each returning the session id in use.\<close>

definition complete_step ::
  "env \<Rightarrow> world \<Rightarrow> string \<Rightarrow> string \<Rightarrow> pydict \<Rightarrow> (exc + string) \<times> world" where
  "complete_step env w sender key result =
     (if truthy (py_get result ''is_feedback_session_complete'' (PyBool False)) \<and> key \<noteq> []
      then (case mark_session_as_completed env w sender key False of
              (Inl e, w1) \<Rightarrow> (Inl e, w1)
            | (Inr returned, w1) \<Rightarrow> (Inr key, w1))
      else (Inr key, w))"

definition reopen_step ::
  "env \<Rightarrow> world \<Rightarrow> string \<Rightarrow> string \<Rightarrow> pydict \<Rightarrow> (exc + string) \<times> world" where
  "reopen_step env w sender key result =
     (if truthy (py_get result ''reopen_session'' (PyBool False)) \<and> key \<noteq> []
      then mark_session_as_completed env w sender key True
      else (Inr key, w))"

definition limit_step ::
  "env \<Rightarrow> world \<Rightarrow> string \<Rightarrow> pydict \<Rightarrow> (exc + string) \<times> world" where
  "limit_step env w key result =
     (if truthy (py_get result ''user_limited_until'' PyNone) \<and> key \<noteq> []
      then (case mark_session_as_limited env w key (py_get result ''user_limited_until'' PyNone) of
              (Inl e, w1) \<Rightarrow> (Inl e, w1)
            | (Inr u, w1) \<Rightarrow> (Inr key, w1))
      else (Inr key, w))"

definition apply_decision ::
  "env \<Rightarrow> world \<Rightarrow> string \<Rightarrow> string \<Rightarrow> pydict \<Rightarrow> (exc + string) \<times> world" where
  "apply_decision env w sender key result =
     (case complete_step env w sender key result of
        (Inl e, w1) \<Rightarrow> (Inl e, w1)
      | (Inr key1, w1) \<Rightarrow>
          (case reopen_step env w1 sender key1 result of
             (Inl e, w2) \<Rightarrow> (Inl e, w2)
           | (Inr key2, w2) \<Rightarrow> limit_step env w2 key2 result))"

text \<open>
  \<open>get_reply_message\<close>: the tuple (reply, session id, should_persist_reply,
  reply_stage, is_feedback_session_complete, feedback_data).
\<close>

type_synonym reply_tuple = "pyval \<times> string \<times> pyval \<times> pyval \<times> pyval \<times> pydict"

definition reply_of :: "pydict \<Rightarrow> string \<Rightarrow> reply_tuple" where
  "reply_of result key =
     (py_get result ''reply'' (PyStr ''''),
      key,
      py_get result ''should_persist_reply'' (PyBool True),
      py_get result ''reply_stage'' (PyInt 0),
      py_get result ''is_feedback_session_complete'' (PyBool False),
      feedback_payload result)"

definition get_reply_message :: "env \<Rightarrow> world \<Rightarrow> string \<Rightarrow> (exc + reply_tuple) \<times> world" where
  "get_reply_message env w sender =
     (case resolve_conversation env w sender of
        (Inl e, w1) \<Rightarrow> (Inl e, w1)
      | (Inr (messages, key), w1) \<Rightarrow>
          (case analyze_conversation (llm env) messages of
             Inl e \<Rightarrow> (Inl e, w1)
           | Inr a \<Rightarrow>
               (case apply_decision env w1 sender key (decision a) of
                  (Inl e, w2) \<Rightarrow> (Inl e, w2)
                | (Inr key2, w2) \<Rightarrow> (Inr (reply_of (decision a) key2), w2))))"

text \<open>
  \<open>asyncio.gather(*tasks, return_exceptions=True)\<close>: every task runs, and what it
  raises becomes its result. The tasks of a cycle write to different stores, so they
  are run here in list order.
\<close>

fun gather ::
  "(world \<Rightarrow> (exc + unit) \<times> world) list \<Rightarrow> world \<Rightarrow> (exc + unit) list \<times> world" where
  "gather [] w = ([], w)"
| "gather (task # tasks) w =
     (case task w of
        (r, w1) \<Rightarrow> (case gather tasks w1 of (rs, w2) \<Rightarrow> (r # rs, w2)))"

definition channel :: "string \<Rightarrow> string" where
  "channel number = (if startswith number ''whatsapp:'' then number else ''whatsapp:'' @ number)"

definition outbound_chat ::
  "env \<Rightarrow> string \<Rightarrow> string \<Rightarrow> pyval \<Rightarrow> pyval \<Rightarrow> chat_item" where
  "outbound_chat env sender key reply_message stage =
     \<lparr>chat_sender_id = sender, chat_message_id = uuid4 env MessageId,
      chat_type = ''outbound'', chat_session_id = key, chat_created_at = time env,
      content_text = Some reply_message, media_items = [], chat_reply_stage = Some stage\<rparr>"

text \<open>Lines 430-441: the tasks of the cycle, in the order the list is built.\<close>

definition cycle_tasks ::
  "env \<Rightarrow> string \<Rightarrow> reply_tuple \<Rightarrow> (world \<Rightarrow> (exc + unit) \<times> world) list" where
  "cycle_tasks env sender t =
     (case t of
        (reply_message, key, should_persist_reply, stage, is_complete, feedback_data) \<Rightarrow>
          [\<lambda>w. send_whatsapp_message env w (channel (from_number env))
                  (channel (''+'' @ sender)) reply_message]
          @ (if truthy should_persist_reply
             then [\<lambda>w. save_chat_message env w (outbound_chat env sender key reply_message stage)]
             else [])
          @ (if truthy is_complete
             then [\<lambda>w. download_media_files env w
                          (setitem ''sender_id'' (PyStr sender) feedback_data)]
             else []))"

definition summary :: "env \<Rightarrow> string \<Rightarrow> pydict" where
  "summary env key =
     [(''session_id'', PyStr key),
      (''message_id'', PyStr (uuid4 env MessageId)),
      (''status'', PyStr ''sent'')]"

text \<open>
  \<open>reply_user\<close> (lines 387-454): the summary dict, or the exception raised again by the
  handler, with the state of the stores afterwards.
\<close>

definition reply_user :: "env \<Rightarrow> world \<Rightarrow> string \<Rightarrow> (exc + pydict) \<times> world" where
  "reply_user env w sender =
     (case get_reply_message env w sender of
        (Inl e, w1) \<Rightarrow> (Inl e, w1)
      | (Inr t, w1) \<Rightarrow>
          (case gather (cycle_tasks env sender t) w1 of
             (results, w2) \<Rightarrow> (Inr (summary env (fst (snd t))), w2)))"

text \<open>Reply cycles for one sender, one after the other.\<close>

fun run_cycles :: "env list \<Rightarrow> world \<Rightarrow> string \<Rightarrow> world" where
  "run_cycles [] w sender = w"
| "run_cycles (env # envs) w sender = run_cycles envs (snd (reply_user env w sender)) sender"

section \<open>Predicates of the statements\<close>

text \<open>A history entry as the classifier's contract types it: a text entry carries a string.\<close>

fun text_is_str :: "message \<Rightarrow> bool" where
  "text_is_str (TextMsg (PyStr s) d) = True"
| "text_is_str (TextMsg v d) = False"
| "text_is_str (MediaMsg u d) = True"

text \<open>The provider reported rate limiting: a \<open>RateLimitError\<close>, or a status error 429.\<close>

fun is_rate_limited :: "completion_outcome \<Rightarrow> bool" where
  "is_rate_limited (Raises RateLimitError) = True"
| "is_rate_limited (Raises (APIStatusError code)) = (code = 429)"
| "is_rate_limited other = False"

text \<open>
  The identifiers \<open>download_single_media\<close> reads from a reference, the location it
  downloads from, the content type it uploads with, and what its result adds to the
  saved URLs. A durable URL is one under the bucket's \<open>feedback-media/\<close> prefix.
\<close>

definition message_sid_of :: "string \<Rightarrow> string" where
  "message_sid_of u = split CHR ''/'' u ! (length (split CHR ''/'' u) - 3)"

definition media_sid_of :: "string \<Rightarrow> string" where
  "media_sid_of u = last (split CHR ''/'' u)"

definition s3_prefix :: "env \<Rightarrow> string" where
  "s3_prefix env = ''https://'' @ s3_bucket_name env @ ''.s3.amazonaws.com/feedback-media/''"

fun durable_url :: "env \<Rightarrow> pyval \<Rightarrow> bool" where
  "durable_url env (PyStr s) = startswith s (s3_prefix env)"
| "durable_url env other = False"

definition relayed_url :: "env \<Rightarrow> pyval \<Rightarrow> pyval list" where
  "relayed_url env u =
     (case download_single_media env u of
        Inr (Some r) \<Rightarrow> [py_get r ''s3_url'' PyNone]
      | Inr None \<Rightarrow> []
      | Inl e \<Rightarrow> [])"

text \<open>
  A recorded URL addresses a stored object when it is under the bucket's host and the
  \<open>put_object\<close> of the key that follows the host did not fail. It is relayed from a
  reference when its key starts with the identifiers read from that reference.
\<close>

fun stored_object :: "env \<Rightarrow> pyval \<Rightarrow> bool" where
  "stored_object env (PyStr s) =
     (startswith s (''https://'' @ s3_bucket_name env @ ''.s3.amazonaws.com/'')
      \<and> \<not> put_object_fails env
            (drop (length (''https://'' @ s3_bucket_name env @ ''.s3.amazonaws.com/'')) s))"
| "stored_object env other = False"

fun relayed_from :: "env \<Rightarrow> pyval \<Rightarrow> pyval \<Rightarrow> bool" where
  "relayed_from env (PyStr u) (PyStr s) =
     startswith s (s3_prefix env @ message_sid_of u @ ''/'' @ media_sid_of u @ ''.'')"
| "relayed_from env ref v = False"



text \<open>
  What the statements read off the session table: the id, sender and status of every
  session, the number of active sessions of a sender, the ids, and the statuses and
  \<open>user_limited_until\<close> markers of the sessions with a given id.
\<close>

definition session_states :: "world \<Rightarrow> (string \<times> string option \<times> string option) list" where
  "session_states w = map (\<lambda>s. (session_id s, sender_id s, status s)) (session_table w)"

definition count_active :: "world \<Rightarrow> string \<Rightarrow> nat" where
  "count_active w sender = length (filter (is_active_of sender) (session_table w))"

text \<open>The session the store returns for the sender is active but has no stored message.\<close>

definition has_empty_active :: "world \<Rightarrow> string \<Rightarrow> bool" where
  "has_empty_active w sender =
     (case query_active (session_table w) sender of
        [] \<Rightarrow> False
      | s # others \<Rightarrow> session_chats (chat_table w) (session_id s) = [])"

text \<open>
  The active sessions of the sender are what the session query returns: there is at
  most one, and it is the sender's most recent session. The stale sessions are the
  active ones the query cannot return, those behind the most recent one.
\<close>

definition query_sees_active :: "world \<Rightarrow> string \<Rightarrow> bool" where
  "query_sees_active w sender =
     (filter (is_active_of sender) (session_table w) = query_active (session_table w) sender)"

definition stale_sessions :: "session_item list \<Rightarrow> string \<Rightarrow> session_item list" where
  "stale_sessions tbl sender =
     filter (\<lambda>s. status s = Some ''active'') (drop 1 (sender_sessions tbl sender))"

text \<open>
  How \<open>get_reply_message\<close> reads the decision (lines 366-368), the decision of a cycle
  (\<open>None\<close> when the cycle fails before it has one), and the session id a cycle ends
  with when it started by creating a session.
\<close>

definition reopens :: "pydict \<Rightarrow> bool" where
  "reopens result = truthy (py_get result ''reopen_session'' (PyBool False))"

definition cycle_decision :: "env \<Rightarrow> world \<Rightarrow> string \<Rightarrow> pydict option" where
  "cycle_decision env w sender =
     (case resolve_conversation env w sender of
        (Inl e, w1) \<Rightarrow> None
      | (Inr (messages, key), w1) \<Rightarrow>
          (case analyze_conversation (llm env) messages of
             Inl e \<Rightarrow> None
           | Inr a \<Rightarrow> Some (decision a)))"

definition cycle_reopens :: "env \<Rightarrow> world \<Rightarrow> string \<Rightarrow> bool" where
  "cycle_reopens env w sender =
     (case cycle_decision env w sender of None \<Rightarrow> False | Some d \<Rightarrow> reopens d)"

definition session_ids :: "world \<Rightarrow> string list" where
  "session_ids w = map session_id (session_table w)"

definition statuses :: "world \<Rightarrow> string \<Rightarrow> string option list" where
  "statuses w key = map status (filter (\<lambda>s. session_id s = key) (session_table w))"

definition completes :: "pydict \<Rightarrow> bool" where
  "completes result = truthy (py_get result ''is_feedback_session_complete'' (PyBool False))"

definition limits :: "pydict \<Rightarrow> bool" where
  "limits result = truthy (py_get result ''user_limited_until'' PyNone)"

definition status_of :: "session_item list \<Rightarrow> string \<Rightarrow> string option list" where
  "status_of tbl key = map status (filter (\<lambda>s. session_id s = key) tbl)"

definition limited_until_of :: "world \<Rightarrow> string \<Rightarrow> pyval option list" where
  "limited_until_of w key =
     map user_limited_until (filter (\<lambda>s. session_id s = key) (session_table w))"

definition final_key :: "env \<Rightarrow> pydict \<Rightarrow> string" where
  "final_key env result =
     (if reopens result then uuid4 env ReopenedSessionId else uuid4 env NewSessionId)"

section \<open>Concrete inputs\<close>

definition demo_flagged :: pydict where
  "demo_flagged =
     [(''reply'', PyStr ''Tell me more''),
      (''should_persist_reply'', PyBool True),
      (''is_irrelevant'', PyBool True),
      (''product_name'', PyStr ''iPad'')]"

definition demo_clean :: pydict where
  "demo_clean =
     [(''reply'', PyStr ''Which product?''),
      (''reply_stage'', PyStr ''product_name''),
      (''is_feedback_session_complete'', PyBool False)]"

definition demo_loads :: "string \<Rightarrow> pyval option" where
  "demo_loads s =
     (if s = ''flagged'' then Some (PyDict demo_flagged)
      else if s = ''clean'' then Some (PyDict demo_clean)
      else if s = ''[]'' then Some (PyList [])
      else None)"

definition demo_llm :: "(nat \<Rightarrow> completion_outcome) \<Rightarrow> llm_env" where
  "demo_llm answers =
     \<lparr>create = (\<lambda>messages. answers), json_loads = demo_loads, now = 1000,
      isoformat = (\<lambda>t. if t = 1060 then ''1970-01-01T00:17:40'' else ''1970-01-01T00:00:00'')\<rparr>"

definition demo_history :: "message list" where
  "demo_history = [TextMsg (PyStr ''hello'') Inbound, MediaMsg (PyStr ''https://x/1'') Inbound]"

definition demo_long_history :: "message list" where
  "demo_long_history =
     [TextMsg (PyStr ''Which product?'') Outbound,
      TextMsg (PyStr (replicate 1001 CHR ''a'')) Inbound]"

definition demo_third_time :: "nat \<Rightarrow> completion_outcome" where
  "demo_third_time k =
     (if k = 0 then Raises RateLimitError
      else if k = 1 then Raises (APIStatusError 429)
      else Completion (Some ''clean''))"

fun demo_uuid4 :: "uuid_site \<Rightarrow> string" where
  "demo_uuid4 NewSessionId = ''S2''"
| "demo_uuid4 ReopenedSessionId = ''S3''"
| "demo_uuid4 MessageId = ''M1''"

definition demo_media_list :: "string \<Rightarrow> exc + media list" where
  "demo_media_list message_sid =
     (if message_sid = ''MM1''
      then Inr [\<lparr>sid = ''ME0'', uri = ''/2010-04-01/Accounts/AC1/Messages/MM1/Media/ME0.json''\<rparr>,
                \<lparr>sid = ''ME1'', uri = ''/2010-04-01/Accounts/AC1/Messages/MM1/Media/ME1.json''\<rparr>]
      else if message_sid = ''MM2''
      then Inr [\<lparr>sid = ''ME2'', uri = ''/2010-04-01/Accounts/AC1/Messages/MM2/Media/ME2.json''\<rparr>]
      else if message_sid = ''MM3''
      then Inr [\<lparr>sid = ''ME3'', uri = ''/2010-04-01/Accounts/AC1/Messages/MM3/Media/ME3.json''\<rparr>]
      else Inr [])"

definition demo_requests_get :: "string \<Rightarrow> exc + http_response" where
  "demo_requests_get url =
     (if url = ''https://api.twilio.com/2010-04-01/Accounts/AC1/Messages/MM2/Media/ME2''
      then Inr \<lparr>status_code = 404, content = Some [], content_type = None\<rparr>
      else Inr \<lparr>status_code = 200, content = Some ''JPEG'', content_type = Some ''image/jpeg''\<rparr>)"

definition demo_env :: "(nat \<Rightarrow> completion_outcome) \<Rightarrow> (call_site \<Rightarrow> bool) \<Rightarrow> env" where
  "demo_env answers faults =
     \<lparr>llm = demo_llm answers, fails = faults, uuid4 = demo_uuid4, time = 1000,
      page_limit = 0, media_list = demo_media_list, requests_get = demo_requests_get,
      put_object_fails = (\<lambda>key. key = ''feedback-media/MM3/ME3.jpeg''),
      from_number = ''+14155238886'', s3_bucket_name = ''feedback-bucket''\<rparr>"

definition demo_ref :: "string \<Rightarrow> string \<Rightarrow> string" where
  "demo_ref message_sid media_sid =
     ''https://api.twilio.com/2010-04-01/Accounts/AC1/Messages/'' @ message_sid
       @ ''/Media/'' @ media_sid"

definition no_faults :: "call_site \<Rightarrow> bool" where
  "no_faults site = False"

definition demo_idle :: "nat \<Rightarrow> completion_outcome" where
  "demo_idle k = Raises APIConnectionError"

definition demo_session :: session_item where
  "demo_session = new_session ''S1'' ''155512345'' 900"

definition demo_inbound :: chat_item where
  "demo_inbound =
     \<lparr>chat_sender_id = ''155512345'', chat_message_id = ''M0'', chat_type = ''inbound'',
      chat_session_id = ''S1'', chat_created_at = 950,
      content_text = Some (PyStr ''My iPad is great''), media_items = [],
      chat_reply_stage = None\<rparr>"

definition demo_world :: world where
  "demo_world =
     \<lparr>session_table = [demo_session], chat_table = [demo_inbound], feedback_db = [],
      outbox = []\<rparr>"




definition empty_world :: world where
  "empty_world = \<lparr>session_table = [], chat_table = [], feedback_db = [], outbox = []\<rparr>"

fun demo_uuid4b :: "uuid_site \<Rightarrow> string" where
  "demo_uuid4b NewSessionId = ''S4''"
| "demo_uuid4b ReopenedSessionId = ''S5''"
| "demo_uuid4b MessageId = ''M2''"

definition demo_answer :: "string \<Rightarrow> nat \<Rightarrow> completion_outcome" where
  "demo_answer s k = Completion (Some s)"

definition only_fails :: "call_site \<Rightarrow> call_site \<Rightarrow> bool" where
  "only_fails site s = (s = site)"

definition demo_complete :: pydict where
  "demo_complete =
     [(''reply'', PyStr ''Thank you, your feedback has been received.''),
      (''reply_stage'', PyStr ''complete''),
      (''product_name'', PyStr ''AirPods Pro''),
      (''feedback'', PyStr ''it is great''),
      (''media_urls'', PyList [PyStr (demo_ref ''MM1'' ''ME1''), PyStr (demo_ref ''MM9'' ''ME9''),
                               PyStr (demo_ref ''MM3'' ''ME3'')]),
      (''is_feedback_session_complete'', PyBool True),
      (''should_persist_reply'', PyBool True)]"

definition demo_complete_env :: env where
  "demo_complete_env =
     (demo_env (demo_answer ''complete'') no_faults)
       \<lparr>llm := (demo_llm (demo_answer ''complete''))
                 \<lparr>json_loads := (\<lambda>s. Some (PyDict demo_complete))\<rparr>\<rparr>"

definition demo_stale_world :: world where
  "demo_stale_world =
     \<lparr>session_table = [demo_session], chat_table = [], feedback_db = [], outbox = []\<rparr>"

definition demo_null_media :: pydict where
  "demo_null_media =
     [(''reply'', PyStr ''Thank you, your feedback has been received.''),
      (''reply_stage'', PyStr ''complete''),
      (''product_name'', PyStr ''AirPods Pro''),
      (''feedback'', PyStr ''it is great''),
      (''media_urls'', PyNone),
      (''is_feedback_session_complete'', PyBool True),
      (''should_persist_reply'', PyBool True)]"

definition demo_null_media_env :: env where
  "demo_null_media_env =
     (demo_env (demo_answer ''complete'') no_faults)
       \<lparr>llm := (demo_llm (demo_answer ''complete''))
                 \<lparr>json_loads := (\<lambda>s. Some (PyDict demo_null_media))\<rparr>\<rparr>"

definition demo_closed_session :: session_item where
  "demo_closed_session =
     (new_session ''S0'' ''155512345'' 950)\<lparr>status := Some ''completed'', updated_at := Some 960\<rparr>"

definition demo_shadowed_world :: world where
  "demo_shadowed_world =
     \<lparr>session_table = [demo_closed_session, demo_session], chat_table = [demo_inbound],
      feedback_db = [], outbox = []\<rparr>"

section \<open>Properties of the classifier\<close>

lemma range_max_attempts: "[0..<max_attempts] = [0, 1, 2]"
  by (simp add: max_attempts_def upt_rec)

lemma map_of_suspend:
  "map_of (suspend env result) =
     (map_of result)(''should_persist_reply'' \<mapsto> PyBool False,
        ''reply'' \<mapsto> PyStr suspension_reply,
        ''user_limited_until'' \<mapsto> PyStr (isoformat env (now env + 60)),
        ''reopen_session'' \<mapsto> PyBool True)"
  by (simp add: suspend_def setitem_def update_conv')

lemma flag_true_any:
  assumes "flag \<in> {''is_x_rated_conversation'', ''is_crime_rated_conversation'',
                  ''is_immoral_conversation'', ''is_irrelevant''}"
      and "map_of result flag = Some (PyBool True)"
  shows "any_safety_flag result"
  using assms by (auto simp: any_safety_flag_def py_get_def)

text \<open>
  C3. When the pre-filter lets the history through, the retry loop ends with a
  response, its content decodes to a JSON object \<open>result\<close>, and one of the four safety
  flags of \<open>result\<close> is true, then \<open>analyze_conversation\<close> returns \<open>result\<close> with four
  fields overwritten, whatever \<open>result\<close> held for them: \<open>reply\<close> is the fixed suspension
  notice, \<open>should_persist_reply\<close> is false, \<open>user_limited_until\<close> is the ISO form of the
  clock reading plus 60 seconds, and \<open>reopen_session\<close> is true.
\<close>

theorem safety_override:
  assumes "exceeds_limit messages = Inr False"
      and "attempts (create env messages) [0..<max_attempts] 0 0 =
             (Inr (Some (Some raw)), calls, zs)"
      and "json_loads env raw = Some (PyDict result)"
      and "flag \<in> {''is_x_rated_conversation'', ''is_crime_rated_conversation'',
                  ''is_immoral_conversation'', ''is_irrelevant''}"
      and "map_of result flag = Some (PyBool True)"
  shows "analyze_conversation env messages =
           Inr \<lparr>decision = suspend env result, model_calls = calls, slept = zs\<rparr>
       \<and> map_of (suspend env result) ''reply'' = Some (PyStr suspension_reply)
       \<and> map_of (suspend env result) ''should_persist_reply'' = Some (PyBool False)
       \<and> map_of (suspend env result) ''user_limited_until'' =
            Some (PyStr (isoformat env (now env + 60)))
       \<and> map_of (suspend env result) ''reopen_session'' = Some (PyBool True)"
proof -
  have flagged: "any_safety_flag result"
    using assms(4,5) by (rule flag_true_any)
  have "interpret_response env (Some (Some raw)) = Inr (suspend env result)"
    using assms(3) flagged by (simp add: interpret_response_def)
  then have "analyze_conversation env messages =
      Inr \<lparr>decision = suspend env result, model_calls = calls, slept = zs\<rparr>"
    using assms(1,2) by (simp add: analyze_conversation_def try_analyze_def)
  then show ?thesis by (simp add: map_of_suspend)
qed

text \<open>
  The override at a concrete input: the model proposes its own reply and
  \<open>should_persist_reply = true\<close> together with \<open>is_irrelevant = true\<close>.
\<close>

theorem safety_override_witness:
  "exceeds_limit demo_history = Inr False
   \<and> attempts (create (demo_llm (\<lambda>k. Completion (Some ''flagged''))) demo_history)
        [0..<max_attempts] 0 0 = (Inr (Some (Some ''flagged'')), 1, 0)
   \<and> json_loads (demo_llm (\<lambda>k. Completion (Some ''flagged''))) ''flagged'' = Some (PyDict demo_flagged)
   \<and> map_of demo_flagged ''is_irrelevant'' = Some (PyBool True)
   \<and> map_of demo_flagged ''reply'' = Some (PyStr ''Tell me more'')
   \<and> analyze_conversation (demo_llm (\<lambda>k. Completion (Some ''flagged''))) demo_history =
        Inr \<lparr>decision = suspend (demo_llm (\<lambda>k. Completion (Some ''flagged''))) demo_flagged,
             model_calls = 1, slept = 0\<rparr>
   \<and> map_of (suspend (demo_llm (\<lambda>k. Completion (Some ''flagged''))) demo_flagged) ''reply'' =
        Some (PyStr suspension_reply)
   \<and> map_of (suspend (demo_llm (\<lambda>k. Completion (Some ''flagged''))) demo_flagged)
        ''should_persist_reply'' = Some (PyBool False)
   \<and> map_of (suspend (demo_llm (\<lambda>k. Completion (Some ''flagged''))) demo_flagged)
        ''user_limited_until'' = Some (PyStr ''1970-01-01T00:17:40'')
   \<and> map_of (suspend (demo_llm (\<lambda>k. Completion (Some ''flagged''))) demo_flagged)
        ''reopen_session'' = Some (PyBool True)"
proof -
  let ?env = "demo_llm (\<lambda>k. Completion (Some ''flagged''))"
  have h1: "exceeds_limit demo_history = Inr False"
    by (simp add: demo_history_def)
  have h2: "attempts (create ?env demo_history) [0..<max_attempts] 0 0 =
      (Inr (Some (Some ''flagged'')), 1, 0)"
    by (simp add: demo_llm_def range_max_attempts)
  have h3: "json_loads ?env ''flagged'' = Some (PyDict demo_flagged)"
    by (simp add: demo_llm_def demo_loads_def)
  have h4: "''is_irrelevant'' \<in> {''is_x_rated_conversation'', ''is_crime_rated_conversation'',
                  ''is_immoral_conversation'', ''is_irrelevant''}"
    by simp
  have h5: "map_of demo_flagged ''is_irrelevant'' = Some (PyBool True)"
    by (simp add: demo_flagged_def)
  have h6: "map_of demo_flagged ''reply'' = Some (PyStr ''Tell me more'')"
    by (simp add: demo_flagged_def)
  have iso: "isoformat ?env (now ?env + 60) = ''1970-01-01T00:17:40''"
    by (simp add: demo_llm_def)
  show ?thesis
    using safety_override [OF h1 h2 h3 h4 h5] h1 h2 h3 h5 h6 iso by simp
qed

lemma exceeds_limit_typed:
  assumes "list_all text_is_str messages"
      and "TextMsg (PyStr t) d \<in> set messages"
      and "1000 < length t"
  shows "exceeds_limit messages = Inr True"
  using assms
proof (induction messages)
  case Nil
  then show ?case by simp
next
  case (Cons m ms)
  show ?case
  proof (cases m)
    case (TextMsg v d')
    with Cons.prems obtain s where v: "v = PyStr s" by (cases v) auto
    from Cons show ?thesis by (auto simp: TextMsg v)
  next
    case (MediaMsg u d')
    with Cons show ?thesis by simp
  qed
qed

text \<open>
  C6. When every text entry of the history carries a string and one inbound text entry
  is longer than 1000 characters, \<open>analyze_conversation\<close> makes no model call and
  returns the fixed "message too long" decision, whose \<open>should_persist_reply\<close> is true
  and whose \<open>is_feedback_session_complete\<close> is false.
\<close>

theorem too_long_short_circuit:
  assumes "list_all text_is_str messages"
      and "TextMsg (PyStr t) Inbound \<in> set messages"
      and "1000 < length t"
  shows "analyze_conversation env messages =
           Inr \<lparr>decision = too_long_decision, model_calls = 0, slept = 0\<rparr>
       \<and> map_of too_long_decision ''reply'' = Some (PyStr too_long_reply)
       \<and> map_of too_long_decision ''should_persist_reply'' = Some (PyBool True)
       \<and> map_of too_long_decision ''is_feedback_session_complete'' = Some (PyBool False)"
proof -
  have "exceeds_limit messages = Inr True"
    using assms by (rule exceeds_limit_typed)
  then have "analyze_conversation env messages =
      Inr \<lparr>decision = too_long_decision, model_calls = 0, slept = 0\<rparr>"
    by (simp add: analyze_conversation_def try_analyze_def)
  then show ?thesis
    by (simp add: too_long_decision_def fixed_decision_def)
qed

text \<open>The short-circuit at a history whose second entry has 1001 characters.\<close>

theorem too_long_short_circuit_witness:
  "list_all text_is_str demo_long_history
   \<and> TextMsg (PyStr (replicate 1001 CHR ''a'')) Inbound \<in> set demo_long_history
   \<and> 1000 < length (replicate 1001 CHR ''a'')
   \<and> analyze_conversation (demo_llm (\<lambda>k. Completion (Some ''clean''))) demo_long_history =
        Inr \<lparr>decision = too_long_decision, model_calls = 0, slept = 0\<rparr>
   \<and> map_of too_long_decision ''should_persist_reply'' = Some (PyBool True)
   \<and> map_of too_long_decision ''is_feedback_session_complete'' = Some (PyBool False)"
proof -
  have h1: "list_all text_is_str demo_long_history"
    by (simp add: demo_long_history_def)
  have h2: "TextMsg (PyStr (replicate 1001 CHR ''a'')) Inbound \<in> set demo_long_history"
    by (simp add: demo_long_history_def)
  have h3: "1000 < length (replicate 1001 CHR ''a'')"
    by simp
  show ?thesis
    using too_long_short_circuit [OF h1 h2 h3, of "demo_llm (\<lambda>k. Completion (Some ''clean''))"] h1 h2
    by simp
qed

lemma attempts_bounds:
  "attempts call [0..<max_attempts] 0 0 = (r, calls, zs) \<Longrightarrow>
     calls \<le> 3 \<and> 0 < calls \<and> zs = wait_seconds * (calls - 1)
     \<and> (\<forall>j. Suc j < calls \<longrightarrow> is_rate_limited (call j))"
  unfolding range_max_attempts
  by (auto simp: max_attempts_def wait_seconds_def less_Suc_eq
      split: completion_outcome.splits exc.splits if_splits)


lemma attempts_retry:
  "is_rate_limited (call i) \<Longrightarrow> i < max_attempts - 1 \<Longrightarrow>
     attempts call (i # rest) c z = attempts call rest (Suc c) (z + wait_seconds)"
  by (cases "call i" rule: is_rate_limited.cases) simp_all


lemma attempts_done:
  "call i = Completion x \<Longrightarrow> attempts call (i # rest) c z = (Inr (Some x), Suc c, z)"
  by simp


lemma attempts_third_time:
  assumes "is_rate_limited (call 0)" and "is_rate_limited (call 1)"
      and "call 2 = Completion c"
  shows "attempts call [0..<max_attempts] 0 0 = (Inr (Some c), 3, 2 * wait_seconds)"
proof -
  have "attempts call [0, 1, 2] 0 0 = attempts call [1, 2] (Suc 0) (0 + wait_seconds)"
    using assms(1) by (intro attempts_retry) (simp_all add: max_attempts_def)
  also have "\<dots> = attempts call [2] (Suc (Suc 0)) (0 + wait_seconds + wait_seconds)"
    using assms(2) by (intro attempts_retry) (simp_all add: max_attempts_def)
  also have "\<dots> = (Inr (Some c), Suc (Suc (Suc 0)), 0 + wait_seconds + wait_seconds)"
    using assms(3) by (intro attempts_done)
  finally show ?thesis by (simp add: range_max_attempts numeral_3_eq_3)
qed

lemma analyze_total: "\<exists>a. analyze_conversation env messages = Inr a"
  by (auto simp: analyze_conversation_def split: prod.splits sum.splits)






lemma analyze_counts:
  assumes "analyze_conversation env messages = Inr a"
  shows "model_calls a \<le> max_attempts \<and> slept a = wait_seconds * (model_calls a - 1)
       \<and> (\<forall>j. Suc j < model_calls a \<longrightarrow> is_rate_limited (create env messages j))"
proof (cases "exceeds_limit messages = Inr False")
  case True
  obtain r calls zs where att:
    "attempts (create env messages) [0..<max_attempts] 0 0 = (r, calls, zs)"
    by (cases "attempts (create env messages) [0..<max_attempts] 0 0") auto
  from assms True att have "model_calls a = calls \<and> slept a = zs"
    by (auto simp: analyze_conversation_def try_analyze_def split: sum.splits)
  with attempts_bounds [OF att] show ?thesis
    by (simp add: max_attempts_def)
next
  case False
  with assms have "model_calls a = 0 \<and> slept a = 0"
    by (auto simp: analyze_conversation_def try_analyze_def split: sum.splits bool.splits)
  then show ?thesis by simp
qed

lemma interpret_response_create:
  "interpret_response (env\<lparr>create := f\<rparr>) response = interpret_response env response"
  by (auto simp: interpret_response_def suspend_def split: option.splits pyval.splits)

text \<open>
  C8. The model is called at most three times, one second is slept between two
  attempts, and an attempt is followed by another only if it was rate limited. When
  attempts 1 and 2 are rate limited and attempt 3 succeeds, the decision returned is
  the one returned when the first attempt succeeds with the same response: the model
  result itself when it is a JSON object without safety flag.
\<close>

theorem retry_policy:
  "(analyze_conversation env messages = Inr a \<longrightarrow>
      model_calls a \<le> max_attempts \<and> slept a = wait_seconds * (model_calls a - 1)
      \<and> (\<forall>j. Suc j < model_calls a \<longrightarrow> is_rate_limited (create env messages j)))
   \<and> (exceeds_limit messages = Inr False
        \<and> is_rate_limited (create env messages 0) \<and> is_rate_limited (create env messages 1)
        \<and> create env messages 2 = Completion c
      \<longrightarrow> (\<exists>d. analyze_conversation env messages =
                 Inr \<lparr>decision = d, model_calls = 3, slept = 2 * wait_seconds\<rparr>
               \<and> analyze_conversation (env\<lparr>create := \<lambda>m k. Completion c\<rparr>) messages =
                   Inr \<lparr>decision = d, model_calls = 1, slept = 0\<rparr>
               \<and> (\<forall>raw result. c = Some raw \<and> json_loads env raw = Some (PyDict result)
                      \<and> \<not> any_safety_flag result \<longrightarrow> d = result)))"
proof -
  have second: "\<exists>d. analyze_conversation env messages =
                 Inr \<lparr>decision = d, model_calls = 3, slept = 2 * wait_seconds\<rparr>
               \<and> analyze_conversation (env\<lparr>create := \<lambda>m k. Completion c\<rparr>) messages =
                   Inr \<lparr>decision = d, model_calls = 1, slept = 0\<rparr>
               \<and> (\<forall>raw result. c = Some raw \<and> json_loads env raw = Some (PyDict result)
                      \<and> \<not> any_safety_flag result \<longrightarrow> d = result)"
    if pre: "exceeds_limit messages = Inr False"
      and r0: "is_rate_limited (create env messages 0)"
      and r1: "is_rate_limited (create env messages 1)"
      and ok: "create env messages 2 = Completion c"
  proof -
    define d where "d = (case interpret_response env (Some c) of
                           Inl e \<Rightarrow> fallback_decision | Inr result \<Rightarrow> result)"
    have att: "attempts (create env messages) [0..<max_attempts] 0 0 =
        (Inr (Some c), 3, 2 * wait_seconds)"
      using r0 r1 ok by (rule attempts_third_time)
    have one: "analyze_conversation env messages =
        Inr \<lparr>decision = d, model_calls = 3, slept = 2 * wait_seconds\<rparr>"
      using pre att
      by (simp add: analyze_conversation_def try_analyze_def d_def split: sum.splits)
    have att1: "attempts (\<lambda>k. Completion c) [0..<max_attempts] 0 0 = (Inr (Some c), 1, 0)"
      by (simp add: range_max_attempts)
    have two: "analyze_conversation (env\<lparr>create := \<lambda>m k. Completion c\<rparr>) messages =
        Inr \<lparr>decision = d, model_calls = 1, slept = 0\<rparr>"
      using pre att1
      by (simp add: analyze_conversation_def try_analyze_def d_def interpret_response_create
          split: sum.splits)
    have three: "d = result"
      if "c = Some t" "json_loads env t = Some (PyDict result)" "\<not> any_safety_flag result"
      for t result
      using that by (simp add: d_def interpret_response_def)
    from one two three show ?thesis by blast
  qed
  from analyze_counts second show ?thesis by blast
qed

text \<open>Two rate-limit errors, then a response without safety flag.\<close>

theorem retry_policy_witness:
  "exceeds_limit demo_history = Inr False
   \<and> is_rate_limited (create (demo_llm demo_third_time) demo_history 0)
   \<and> is_rate_limited (create (demo_llm demo_third_time) demo_history 1)
   \<and> create (demo_llm demo_third_time) demo_history 2 = Completion (Some ''clean'')
   \<and> json_loads (demo_llm demo_third_time) ''clean'' = Some (PyDict demo_clean)
   \<and> \<not> any_safety_flag demo_clean
   \<and> analyze_conversation (demo_llm demo_third_time) demo_history =
       Inr \<lparr>decision = demo_clean, model_calls = 3, slept = 2\<rparr>
   \<and> analyze_conversation
        ((demo_llm demo_third_time)\<lparr>create := \<lambda>m k. Completion (Some ''clean'')\<rparr>) demo_history =
       Inr \<lparr>decision = demo_clean, model_calls = 1, slept = 0\<rparr>
   \<and> model_calls \<lparr>decision = demo_clean, model_calls = 3, slept = 2\<rparr> \<le> max_attempts"
proof -
  let ?env = "demo_llm demo_third_time"
  let ?a = "\<lparr>decision = demo_clean, model_calls = 3, slept = 2\<rparr>"
  have h1: "exceeds_limit demo_history = Inr False"
    by (simp add: demo_history_def)
  have h2: "is_rate_limited (create ?env demo_history 0)"
    by (simp add: demo_llm_def demo_third_time_def)
  have h3: "is_rate_limited (create ?env demo_history 1)"
    by (simp add: demo_llm_def demo_third_time_def)
  have h4: "create ?env demo_history 2 = Completion (Some ''clean'')"
    by (simp add: demo_llm_def demo_third_time_def)
  have h5: "json_loads ?env ''clean'' = Some (PyDict demo_clean)"
    by (simp add: demo_llm_def demo_loads_def)
  have h6: "\<not> any_safety_flag demo_clean"
    by (simp add: any_safety_flag_def py_get_def demo_clean_def)
  from retry_policy [of ?env demo_history ?a "Some ''clean''"] h1 h2 h3 h4
  obtain d where d: "analyze_conversation ?env demo_history =
        Inr \<lparr>decision = d, model_calls = 3, slept = 2 * wait_seconds\<rparr>"
      "analyze_conversation (?env\<lparr>create := \<lambda>m k. Completion (Some ''clean'')\<rparr>) demo_history =
        Inr \<lparr>decision = d, model_calls = 1, slept = 0\<rparr>"
      "\<forall>raw result. Some ''clean'' = Some raw \<and> json_loads ?env raw = Some (PyDict result)
          \<and> \<not> any_safety_flag result \<longrightarrow> d = result"
    by blast
  from d(3) h5 h6 have "d = demo_clean" by blast
  with d(1,2) h1 h2 h3 h4 h5 h6 show ?thesis
    by (simp add: wait_seconds_def max_attempts_def)
qed


section \<open>Properties of the media relay\<close>

lemma upload_durable:
  "upload_to_s3 env body msid mid ctype = Some s \<Longrightarrow> startswith s (s3_prefix env) \<and> s \<noteq> []"
  by (auto simp: upload_to_s3_def Let_def s3_prefix_def startswith_def split: if_splits)

lemma fetch_and_upload_some:
  "fetch_and_upload env media_url msid mid = Inr (Some r) \<Longrightarrow>
     \<exists>s. r = [(''s3_url'', PyStr s)] \<and> startswith s (s3_prefix env) \<and> s \<noteq> []"
  by (auto simp: fetch_and_upload_def dest: upload_durable
      split: sum.splits if_splits option.splits)

lemma lookup_and_relay_some:
  "lookup_and_relay env u = Inr (Some r) \<Longrightarrow>
     \<exists>s. r = [(''s3_url'', PyStr s)] \<and> startswith s (s3_prefix env) \<and> s \<noteq> []"
  by (auto simp: lookup_and_relay_def Let_def dest: fetch_and_upload_some
      split: sum.splits if_splits option.splits)

lemma download_single_media_some:
  "download_single_media env url = Inr (Some r) \<Longrightarrow>
     \<exists>s. r = [(''s3_url'', PyStr s)] \<and> startswith s (s3_prefix env) \<and> s \<noteq> []"
  by (cases url) (auto simp: download_single_media_def dest: lookup_and_relay_some
      split: sum.splits)

lemma download_single_media_total: "\<exists>r. download_single_media env url = Inr r"
  by (auto simp: download_single_media_def split: sum.splits)

lemma saved_urls_relayed:
  "saved_urls (map (download_single_media env) urls) = Inr (concat (map (relayed_url env) urls))"
proof (induction urls)
  case Nil
  show ?case by simp
next
  case (Cons u us)
  obtain r where r: "download_single_media env u = Inr r"
    using download_single_media_total by blast
  show ?case
  proof (cases r)
    case None
    with r Cons show ?thesis by (simp add: relayed_url_def)
  next
    case (Some d)
    with r obtain s where "d = [(''s3_url'', PyStr s)]" "s \<noteq> []"
      using download_single_media_some by blast
    with r Some Cons show ?thesis by (simp add: py_get_def relayed_url_def)
  qed
qed

lemma relayed_url_cases:
  "relayed_url env u = [] \<or>
   (\<exists>s. relayed_url env u = [PyStr s] \<and> startswith s (s3_prefix env)
        \<and> download_single_media env u = Inr (Some [(''s3_url'', PyStr s)]))"
proof -
  obtain r where r: "download_single_media env u = Inr r"
    using download_single_media_total by blast
  show ?thesis
  proof (cases r)
    case None
    with r show ?thesis by (simp add: relayed_url_def)
  next
    case (Some d)
    with r obtain s where "d = [(''s3_url'', PyStr s)]" "startswith s (s3_prefix env)"
      using download_single_media_some by blast
    with r Some show ?thesis by (simp add: py_get_def relayed_url_def)
  qed
qed

lemma relayed_durable:
  assumes "v \<in> set (concat (map (relayed_url env) urls))"
  shows "durable_url env v"
proof -
  from assms obtain u where "v \<in> set (relayed_url env u)" by auto
  with relayed_url_cases [of env u] show ?thesis by auto
qed


lemma download_media_files_list:
  assumes "py_get feedback_data ''media_urls'' (PyList []) = PyList urls"
      and "\<not> fails env CommitFeedback"
  shows "download_media_files env w feedback_data =
           (Inr (),
            w\<lparr>feedback_db := feedback_db w @
               [\<lparr>fb_sender_id = py_get feedback_data ''sender_id'' PyNone,
                 fb_product_name = py_get feedback_data ''product_name'' PyNone,
                 fb_feedback_text = py_get feedback_data ''feedback_text'' PyNone,
                 fb_media_urls = PyList (concat (map (relayed_url env) urls))\<rparr>]\<rparr>)"
proof (cases urls)
  case Nil
  with assms show ?thesis
    by (simp add: download_media_files_def save_feedback_data_def feedback_model_data_def
        py_get_def Let_def)
next
  case (Cons u us)
  have "saved_urls (map (download_single_media env) urls) =
      Inr (concat (map (relayed_url env) urls))"
    by (rule saved_urls_relayed)
  with assms Cons show ?thesis
    by (simp add: download_media_files_def save_feedback_data_def feedback_model_data_def
        py_get_def setitem_def Let_def)
qed







lemma drop_prefix: "drop (length h) (h @ k) = k"
  by simp

lemma take_prefix: "take (length h) (h @ k) = h"
  by simp

lemma upload_stored:
  assumes "upload_to_s3 env body msid mid ctype = Some s"
  shows "durable_url env (PyStr s) \<and> stored_object env (PyStr s)
       \<and> startswith s (s3_prefix env @ msid @ ''/'' @ mid @ ''.'')"
proof -
  let ?host = "''https://'' @ s3_bucket_name env @ ''.s3.amazonaws.com/''"
  let ?key = "''feedback-media/'' @ msid @ ''/'' @ mid @ ''.'' @ last (split CHR ''/'' ctype)"
  from assms have ok: "\<not> put_object_fails env ?key" and s: "s = ?host @ ?key"
    by (auto simp: upload_to_s3_def Let_def split: if_splits)
  have pre: "s3_prefix env = ?host @ ''feedback-media/''"
    by (simp add: s3_prefix_def)
  have "drop (length ?host) s = ?key"
    unfolding s by (rule drop_prefix)
  moreover have "startswith s ?host"
    unfolding s startswith_def by (rule take_prefix)
  moreover have "s = s3_prefix env @ (msid @ ''/'' @ mid @ ''.'' @ last (split CHR ''/'' ctype))"
    unfolding s pre by simp
  then have "startswith s (s3_prefix env)"
      "startswith s (s3_prefix env @ msid @ ''/'' @ mid @ ''.'')"
    by (simp_all add: startswith_def)
  ultimately show ?thesis using ok by simp
qed

lemma fetch_and_upload_stored:
  "fetch_and_upload env media_url msid mid = Inr (Some r) \<Longrightarrow>
     \<exists>s. r = [(''s3_url'', PyStr s)] \<and> durable_url env (PyStr s) \<and> stored_object env (PyStr s)
       \<and> startswith s (s3_prefix env @ msid @ ''/'' @ mid @ ''.'')"
  by (auto simp: fetch_and_upload_def dest!: upload_stored
      split: sum.splits if_splits option.splits)

lemma lookup_and_relay_stored:
  "lookup_and_relay env u = Inr (Some r) \<Longrightarrow>
     \<exists>s. r = [(''s3_url'', PyStr s)] \<and> durable_url env (PyStr s) \<and> stored_object env (PyStr s)
       \<and> relayed_from env (PyStr u) (PyStr s)"
  by (auto simp: lookup_and_relay_def Let_def message_sid_of_def media_sid_of_def
      dest!: fetch_and_upload_stored split: sum.splits if_splits option.splits)

lemma relayed_url_stored:
  assumes "v \<in> set (relayed_url env ref)"
  shows "durable_url env v \<and> stored_object env v \<and> relayed_from env ref v"
proof -
  obtain x where x: "download_single_media env ref = Inr x"
    using download_single_media_total by blast
  with assms obtain r where r: "download_single_media env ref = Inr (Some r)"
      and v: "v = py_get r ''s3_url'' PyNone"
    by (cases x) (simp_all add: relayed_url_def)
  from r obtain u where u: "ref = PyStr u" and "lookup_and_relay env u = Inr (Some r)"
    by (cases ref) (auto simp: download_single_media_def split: sum.splits)
  then obtain s where "r = [(''s3_url'', PyStr s)]" "durable_url env (PyStr s)"
      "stored_object env (PyStr s)" "relayed_from env (PyStr u) (PyStr s)"
    using lookup_and_relay_stored by blast
  with u v show ?thesis by (simp add: py_get_def)
qed

lemma relayed_all_stored:
  "list_all (\<lambda>v. durable_url env v \<and> stored_object env v
              \<and> list_ex (\<lambda>u. relayed_from env u v) urls)
     (concat (map (relayed_url env) urls))"
proof -
  have "durable_url env v \<and> stored_object env v \<and> list_ex (\<lambda>u. relayed_from env u v) urls"
    if "v \<in> set (concat (map (relayed_url env) urls))" for v
  proof -
    from that obtain u where u: "u \<in> set urls" "v \<in> set (relayed_url env u)" by auto
    from relayed_url_stored [OF u(2)] u(1) show ?thesis
      by (auto simp: list_ex_iff)
  qed
  then show ?thesis by (simp add: list_all_iff)
qed

lemma download_media_files_no_len:
  "py_len (py_get feedback_data ''media_urls'' (PyList [])) = None \<Longrightarrow>
     download_media_files env w feedback_data = (Inl TypeError, w)"
  by (simp add: download_media_files_def)

section \<open>Properties of the session orchestrator\<close>

text \<open>
  C2, at a decision that reopens. The sender has one active session, S1, with one stored
  message, and the model sets a safety flag. The cycle opens S3 and reports it in the
  summary, but S1 is not closed: both sessions of the sender are active afterwards.
  With \<open>reopen_session\<close>, \<open>mark_session_as_completed\<close> returns before the update
  that sets the status.
\<close>

theorem reopen_leaves_session_active:
  "count_active demo_world ''155512345'' = 1
   \<and> fst (reply_user (demo_env (demo_answer ''flagged'') no_faults) demo_world ''155512345'') =
        Inr [(''session_id'', PyStr ''S3''), (''message_id'', PyStr ''M1''),
             (''status'', PyStr ''sent'')]
   \<and> session_states
        (snd (reply_user (demo_env (demo_answer ''flagged'') no_faults) demo_world ''155512345'')) =
        [(''S3'', Some ''155512345'', Some ''active''),
         (''S1'', Some ''155512345'', Some ''active'')]
   \<and> count_active
        (snd (reply_user (demo_env (demo_answer ''flagged'') no_faults) demo_world ''155512345''))
        ''155512345'' = 2"
  by code_simp

text \<open>
  C4, at a failing send. When the channel refuses the message, \<open>reply_user\<close> still
  returns the summary with status \<open>sent\<close> and nothing is in the outbox: the failure is
  a gathered result, not a raised exception. What does reach the caller is a failure
  of the session store, here of the query for the active session.
\<close>

theorem send_failure_reported_sent:
  "fst (reply_user (demo_env (demo_answer ''clean'') (only_fails SendMessage)) demo_world
        ''155512345'') =
     Inr [(''session_id'', PyStr ''S1''), (''message_id'', PyStr ''M1''),
          (''status'', PyStr ''sent'')]
   \<and> outbox (snd (reply_user (demo_env (demo_answer ''clean'') (only_fails SendMessage))
        demo_world ''155512345'')) = []
   \<and> reply_user (demo_env (demo_answer ''clean'') (only_fails QuerySessions)) demo_world
        ''155512345'' = (Inl ClientError, demo_world)"
  by code_simp

text \<open>
  C1 fails: two reply cycles from an empty store, in both of which the classifier
  falls back (so no reply is stored), leave the sender with two active sessions. The
  second cycle finds the first session active but without a stored message and opens
  another one.
\<close>

theorem two_active_sessions_counterexample:
  "\<not> count_active
        (run_cycles [demo_env demo_idle no_faults,
                     (demo_env demo_idle no_faults)\<lparr>uuid4 := demo_uuid4b\<rparr>]
           empty_world ''155512345'')
        ''155512345'' \<le> 1"
  by code_simp

lemma fetch_pages_all:
  "fetch_pages items limit messages last_key = messages @ drop last_key items"
proof (induction items limit messages last_key rule: fetch_pages.induct)
  case (1 items limit messages last_key)
  show ?case
  proof (cases "last_key + Suc limit < length items")
    case True
    have "drop (last_key + Suc limit) items = drop (Suc limit) (drop last_key items)"
      by (simp add: add.commute)
    then have "take (Suc limit) (drop last_key items) @ drop (last_key + Suc limit) items
        = drop last_key items"
      by (simp only: append_take_drop_id)
    with 1 True show ?thesis
      by (subst fetch_pages.simps) simp
  next
    case False
    then show ?thesis
      by (subst fetch_pages.simps) simp
  qed
qed

lemma fetch_pages_session [simp]: "fetch_pages items limit [] 0 = items"
  by (simp add: fetch_pages_all)

lemma reopen_step_skip:
  "\<not> reopens result \<Longrightarrow> reopen_step env w sender key result = (Inr key, w)"
  by (simp add: reopen_step_def reopens_def)

lemma query_active_Cons:
  "query_active tbl sender = s # others \<Longrightarrow> s \<in> set tbl \<and> is_active_of sender s \<and> others = []"
proof -
  assume q: "query_active tbl sender = s # others"
  show ?thesis
  proof (cases "sender_sessions tbl sender")
    case Nil
    with q show ?thesis by (simp add: query_active_def)
  next
    case (Cons x xs)
    with q have "s = x" "others = []" "status x = Some ''active''"
      by (auto simp: query_active_def split: if_splits)
    moreover from Cons have "x \<in> set (sender_sessions tbl sender)" by simp
    then have "x \<in> set tbl" "sender_id x = Some sender"
      by (simp_all add: sender_sessions_def)
    ultimately show ?thesis by (simp add: is_active_of_def)
  qed
qed

lemma resolve_cases:
  "resolve_conversation env w sender = (r, w1) \<Longrightarrow>
     (w1 = w \<and> (\<exists>e. r = Inl e))
     \<or> (query_active (session_table w) sender = [] \<and> r = Inr ([], uuid4 env NewSessionId)
          \<and> w1 = w\<lparr>session_table :=
                     put_item (new_session (uuid4 env NewSessionId) sender (time env))
                       (session_table w)\<rparr>)
     \<or> (has_empty_active w sender \<and> r = Inr ([], uuid4 env NewSessionId)
          \<and> w1 = w\<lparr>session_table :=
                     put_item (new_session (uuid4 env NewSessionId) sender (time env))
                       (session_table w)\<rparr>)
     \<or> (w1 = w \<and> (\<exists>s messages. query_active (session_table w) sender = [s]
            \<and> session_chats (chat_table w) (session_id s) \<noteq> []
            \<and> r = Inr (messages, session_id s)))"
  by (auto simp: resolve_conversation_def get_user_unresolved_session_message_def
      has_empty_active_def dest: query_active_Cons split: if_splits list.splits)

lemma send_session_table:
  "session_table (snd (send_whatsapp_message env w a b c)) = session_table w"
  by (simp add: send_whatsapp_message_def)

lemma save_chat_session_table:
  "session_table (snd (save_chat_message env w item)) = session_table w"
  by (simp add: save_chat_message_def)

lemma save_feedback_session_table:
  "session_table (snd (save_feedback_data env w fd)) = session_table w"
  by (simp add: save_feedback_data_def Let_def)

lemma download_session_table:
  "session_table (snd (download_media_files env w fd)) = session_table w"
proof -
  have "\<And>d. session_table (snd (case save_feedback_data env w d of
            (Inl e, w1) \<Rightarrow> (Inl e, w1) | (Inr fb, w1) \<Rightarrow> (Inr (), w1))) = session_table w"
    using save_feedback_session_table
    by (auto simp: save_feedback_data_def Let_def split: prod.splits sum.splits)
  then show ?thesis
    by (auto simp: download_media_files_def split: option.splits sum.splits)
qed

lemma gather_session_table:
  assumes "\<And>task w. task \<in> set tasks \<Longrightarrow> session_table (snd (task w)) = session_table w"
  shows "session_table (snd (gather tasks w)) = session_table w"
  using assms
proof (induction tasks arbitrary: w)
  case Nil
  show ?case by simp
next
  case (Cons task tasks)
  obtain r w1 where t: "task w = (r, w1)" by (cases "task w") auto
  obtain rs w2 where g: "gather tasks w1 = (rs, w2)" by (cases "gather tasks w1") auto
  have "session_table w1 = session_table w"
    using Cons.prems [of task w] t by simp
  moreover have "session_table w2 = session_table w1"
    using Cons.IH [of w1] Cons.prems g by simp
  ultimately show ?case using t g by simp
qed

lemma cycle_tasks_session_table:
  "session_table (snd (gather (cycle_tasks env sender t) w)) = session_table w"
proof (rule gather_session_table)
  fix task w'
  assume "task \<in> set (cycle_tasks env sender t)"
  then show "session_table (snd (task w')) = session_table w'"
    by (auto simp: cycle_tasks_def send_session_table save_chat_session_table
        download_session_table split: prod.splits if_splits)
qed

lemma reply_user_session_table:
  "session_table (snd (reply_user env w sender)) =
     session_table (snd (get_reply_message env w sender))"
proof (cases "get_reply_message env w sender")
  case (Pair r w1)
  show ?thesis
  proof (cases r)
    case (Inl e)
    with Pair show ?thesis by (simp add: reply_user_def)
  next
    case (Inr t)
    obtain results w2 where g: "gather (cycle_tasks env sender t) w1 = (results, w2)"
      by (cases "gather (cycle_tasks env sender t) w1") auto
    with cycle_tasks_session_table [of env sender t w1] have "session_table w2 = session_table w1"
      by simp
    with Pair Inr g show ?thesis by (simp add: reply_user_def)
  qed
qed

lemma ids_update:
  assumes "key \<in> set (map session_id tbl)" and "\<And>s. session_id (f s) = session_id s"
  shows "map session_id (update_item key f tbl) = map session_id tbl"
proof -
  from assms(1) have "list_ex (\<lambda>s. session_id s = key) tbl"
    by (auto simp: list_ex_iff)
  moreover have "map session_id (map (\<lambda>s. if session_id s = key then f s else s) tbl)
      = map session_id tbl"
    using assms(2) by (induction tbl) auto
  ultimately show ?thesis by (simp add: update_item_def)
qed

lemma complete_step_ids:
  "key \<in> set (session_ids w) \<Longrightarrow> complete_step env w sender key result = (r, w1) \<Longrightarrow>
     session_ids w1 = session_ids w"
  by (auto simp: complete_step_def mark_session_as_completed_def session_ids_def ids_update
      split: if_splits)

lemma limit_step_ids:
  "key \<in> set (session_ids w) \<Longrightarrow> limit_step env w key result = (r, w1) \<Longrightarrow>
     session_ids w1 = session_ids w"
  by (auto simp: limit_step_def mark_session_as_limited_def session_ids_def ids_update
      split: if_splits)

lemma complete_step_key:
  "complete_step env w sender key result = (Inr key1, w1) \<Longrightarrow> key1 = key"
  by (auto simp: complete_step_def split: if_splits prod.splits sum.splits)

lemma apply_decision_ids:
  assumes "\<not> reopens result" and "key \<in> set (session_ids w)"
      and "apply_decision env w sender key result = (r, w1)"
  shows "session_ids w1 = session_ids w"
proof -
  obtain r1 wa where c: "complete_step env w sender key result = (r1, wa)"
    by (cases "complete_step env w sender key result") auto
  have ids1: "session_ids wa = session_ids w"
    using assms(2) c by (rule complete_step_ids)
  show ?thesis
  proof (cases r1)
    case (Inl e)
    with assms(3) c ids1 show ?thesis by (simp add: apply_decision_def)
  next
    case (Inr key1)
    with c have k: "key1 = key" by (simp add: complete_step_key)
    from Inr assms c have "limit_step env wa key1 result = (r, w1)"
      by (simp add: apply_decision_def reopen_step_skip)
    with k assms(2) ids1 have "session_ids w1 = session_ids wa"
      by (intro limit_step_ids [where key = key]) simp_all
    with ids1 show ?thesis by simp
  qed
qed

lemma get_reply_world:
  assumes "resolve_conversation env w sender = (Inr (messages, key), w1)"
      and "analyze_conversation (llm env) messages = Inr a"
      and "apply_decision env w1 sender key (decision a) = (r, w2)"
  shows "snd (get_reply_message env w sender) = w2"
  using assms by (cases r) (simp_all add: get_reply_message_def)

lemma cycle_decision_resolved:
  assumes "resolve_conversation env w sender = (Inr (messages, key), w1)"
      and "analyze_conversation (llm env) messages = Inr a"
  shows "cycle_decision env w sender = Some (decision a)"
  using assms by (simp add: cycle_decision_def)

text \<open>Only the session table changes before the tasks run.\<close>

lemma resolve_frame:
  "resolve_conversation env w sender = (r, w1) \<Longrightarrow>
     \<exists>tbl. w1 = w\<lparr>session_table := tbl\<rparr>"
proof -
  assume "resolve_conversation env w sender = (r, w1)"
  from resolve_cases [OF this] have "w1 = w \<or> (\<exists>tbl. w1 = w\<lparr>session_table := tbl\<rparr>)"
    by blast
  moreover have "w = w\<lparr>session_table := session_table w\<rparr>" by simp
  ultimately show ?thesis by metis
qed

lemma complete_step_frame:
  "complete_step env w sender key result = (r, w1) \<Longrightarrow> \<exists>tbl. w1 = w\<lparr>session_table := tbl\<rparr>"
proof -
  assume "complete_step env w sender key result = (r, w1)"
  then have "w1 = w \<or> (\<exists>tbl. w1 = w\<lparr>session_table := tbl\<rparr>)"
    by (auto simp: complete_step_def mark_session_as_completed_def split: if_splits)
  moreover have "w = w\<lparr>session_table := session_table w\<rparr>" by simp
  ultimately show ?thesis by metis
qed

lemma reopen_step_frame:
  "reopen_step env w sender key result = (r, w1) \<Longrightarrow> \<exists>tbl. w1 = w\<lparr>session_table := tbl\<rparr>"
proof -
  assume "reopen_step env w sender key result = (r, w1)"
  then have "w1 = w \<or> (\<exists>tbl. w1 = w\<lparr>session_table := tbl\<rparr>)"
    by (auto simp: reopen_step_def mark_session_as_completed_def split: if_splits)
  moreover have "w = w\<lparr>session_table := session_table w\<rparr>" by simp
  ultimately show ?thesis by metis
qed

lemma limit_step_frame:
  "limit_step env w key result = (r, w1) \<Longrightarrow> \<exists>tbl. w1 = w\<lparr>session_table := tbl\<rparr>"
proof -
  assume "limit_step env w key result = (r, w1)"
  then have "w1 = w \<or> (\<exists>tbl. w1 = w\<lparr>session_table := tbl\<rparr>)"
    by (auto simp: limit_step_def mark_session_as_limited_def split: if_splits)
  moreover have "w = w\<lparr>session_table := session_table w\<rparr>" by simp
  ultimately show ?thesis by metis
qed

lemma apply_decision_frame:
  assumes "apply_decision env w sender key result = (r, w3)"
  shows "\<exists>tbl. w3 = w\<lparr>session_table := tbl\<rparr>"
proof -
  obtain r1 w1 where c: "complete_step env w sender key result = (r1, w1)"
    by (cases "complete_step env w sender key result") auto
  then obtain t1 where w1: "w1 = w\<lparr>session_table := t1\<rparr>"
    using complete_step_frame by blast
  show ?thesis
  proof (cases r1)
    case (Inl e)
    with assms c w1 show ?thesis by (auto simp: apply_decision_def)
  next
    case (Inr key1)
    obtain r2 w2 where ro: "reopen_step env w1 sender key1 result = (r2, w2)"
      by (cases "reopen_step env w1 sender key1 result") auto
    then obtain t2 where w2: "w2 = w1\<lparr>session_table := t2\<rparr>"
      using reopen_step_frame by blast
    show ?thesis
    proof (cases r2)
      case (Inl e)
      with assms c Inr ro w1 w2 show ?thesis by (auto simp: apply_decision_def)
    next
      case (Inr key2)
      with assms c \<open>r1 = Inr key1\<close> ro have "limit_step env w2 key2 result = (r, w3)"
        by (simp add: apply_decision_def)
      then obtain t3 where "w3 = w2\<lparr>session_table := t3\<rparr>"
        using limit_step_frame by blast
      with w1 w2 show ?thesis by auto
    qed
  qed
qed

lemma get_reply_frame:
  "\<exists>tbl. snd (get_reply_message env w sender) = w\<lparr>session_table := tbl\<rparr>"
proof -
  obtain r w1 where res: "resolve_conversation env w sender = (r, w1)"
    by (cases "resolve_conversation env w sender") auto
  then obtain t1 where w1: "w1 = w\<lparr>session_table := t1\<rparr>"
    using resolve_frame by blast
  show ?thesis
  proof (cases r)
    case (Inl e)
    with res w1 show ?thesis by (auto simp: get_reply_message_def)
  next
    case (Inr p)
    obtain messages key where p: "p = (messages, key)" by (cases p) auto
    obtain a where a: "analyze_conversation (llm env) messages = Inr a"
      using analyze_total by blast
    obtain r2 w2 where ap: "apply_decision env w1 sender key (decision a) = (r2, w2)"
      by (cases "apply_decision env w1 sender key (decision a)") auto
    then obtain t2 where "w2 = w1\<lparr>session_table := t2\<rparr>"
      using apply_decision_frame by blast
    moreover have "snd (get_reply_message env w sender) = w2"
      using res Inr p a ap by (intro get_reply_world) simp_all
    ultimately show ?thesis using w1 by auto
  qed
qed

lemma statuses_table: "statuses w key = status_of (session_table w) key"
  by (simp add: statuses_def status_of_def)

lemma status_of_completed:
  assumes "key \<in> set (map session_id tbl)"
  shows "set (status_of (update_item key
            (\<lambda>s. s\<lparr>status := Some ''completed'', updated_at := Some t\<rparr>) tbl) key)
         = {Some ''completed''}"
proof -
  let ?f = "\<lambda>s. s\<lparr>status := Some ''completed'', updated_at := Some t\<rparr>"
  from assms have ex: "list_ex (\<lambda>s. session_id s = key) tbl"
    by (auto simp: list_ex_iff)
  have "filter (\<lambda>s. session_id s = key) (map (\<lambda>s. if session_id s = key then ?f s else s) tbl)
      = map ?f (filter (\<lambda>s. session_id s = key) tbl)"
    by (induction tbl) auto
  then have "status_of (update_item key ?f tbl) key
      = map (\<lambda>s. Some ''completed'') (filter (\<lambda>s. session_id s = key) tbl)"
    using ex by (simp add: status_of_def update_item_def comp_def)
  moreover from assms obtain s where "s \<in> set tbl" "session_id s = key"
    by auto
  then have "s \<in> set (filter (\<lambda>s. session_id s = key) tbl)"
    by simp
  then have "set (map (\<lambda>s. Some ''completed'') (filter (\<lambda>s. session_id s = key) tbl))
      = {Some ''completed''}"
    by (cases "filter (\<lambda>s. session_id s = key) tbl") auto
  ultimately show ?thesis by simp
qed

lemma status_of_put:
  "u \<noteq> key \<Longrightarrow> status_of (put_item (new_session u sender t) tbl) key = status_of tbl key"
proof -
  assume "u \<noteq> key"
  then have "filter (\<lambda>s. session_id s = key) (filter (\<lambda>s. session_id s \<noteq> u) tbl)
      = filter (\<lambda>s. session_id s = key) tbl"
    by (induction tbl) auto
  with \<open>u \<noteq> key\<close> show ?thesis
    by (simp add: status_of_def put_item_def new_session_def)
qed

lemma status_of_limited:
  assumes "k \<in> set (map session_id tbl) \<or> k \<noteq> key"
  shows "status_of (update_item k
            (\<lambda>s. s\<lparr>user_limited_until := Some v, updated_at := Some t\<rparr>) tbl) key
         = status_of tbl key"
proof -
  let ?f = "\<lambda>s. s\<lparr>user_limited_until := Some v, updated_at := Some t\<rparr>"
  have m: "map status (filter (\<lambda>s. session_id s = key)
             (map (\<lambda>s. if session_id s = k then ?f s else s) tbl))
      = map status (filter (\<lambda>s. session_id s = key) tbl)"
    by (induction tbl) auto
  show ?thesis
  proof (cases "list_ex (\<lambda>s. session_id s = k) tbl")
    case True
    with m show ?thesis by (simp add: status_of_def update_item_def)
  next
    case False
    with assms have "k \<noteq> key" by (auto simp: list_ex_iff)
    with False show ?thesis by (simp add: status_of_def update_item_def)
  qed
qed

lemma complete_step_ok:
  assumes "completes result" and "key \<noteq> []" and "\<not> fails env UpdateCompleted"
  shows "complete_step env w sender key result =
     (Inr key,
      w\<lparr>session_table :=
          update_item key (\<lambda>s. s\<lparr>status := Some ''completed'', updated_at := Some (time env)\<rparr>)
            (session_table w)\<rparr>)"
  using assms by (simp add: complete_step_def completes_def mark_session_as_completed_def)

lemma complete_step_skip:
  "\<not> completes result \<Longrightarrow> complete_step env w sender key result = (Inr key, w)"
  by (simp add: complete_step_def completes_def)

lemma reopen_step_ok:
  assumes "reopens result" and "key \<noteq> []" and "\<not> fails env PutReopened"
  shows "reopen_step env w sender key result =
     (Inr (uuid4 env ReopenedSessionId),
      w\<lparr>session_table :=
          put_item (new_session (uuid4 env ReopenedSessionId) sender (time env))
            (session_table w)\<rparr>)"
  using assms by (simp add: reopen_step_def reopens_def mark_session_as_completed_def)

lemma limit_step_ok:
  assumes "limits result" and "key \<noteq> []" and "\<not> fails env UpdateLimited"
  shows "limit_step env w key result =
     (Inr key,
      w\<lparr>session_table :=
          update_item key
            (\<lambda>s. s\<lparr>user_limited_until := Some (py_get result ''user_limited_until'' PyNone),
                    updated_at := Some (time env)\<rparr>)
            (session_table w)\<rparr>)"
  using assms by (simp add: limit_step_def limits_def mark_session_as_limited_def)

lemma limit_step_skip:
  "\<not> (limits result \<and> key \<noteq> []) \<Longrightarrow> limit_step env w key result = (Inr key, w)"
  by (auto simp: limit_step_def limits_def)

lemma apply_decision_completed:
  assumes "completes d" and "key \<noteq> []" and "key \<in> set (session_ids w1)"
      and "uuid4 env ReopenedSessionId \<noteq> key"
      and "\<not> fails env UpdateCompleted" and "\<not> fails env PutReopened"
      and "\<not> fails env UpdateLimited"
  shows "\<exists>key2 w2. apply_decision env w1 sender key d = (Inr key2, w2)
           \<and> set (statuses w2 key) = {Some ''completed''}"
proof -
  let ?ta = "update_item key (\<lambda>s. s\<lparr>status := Some ''completed'', updated_at := Some (time env)\<rparr>)
               (session_table w1)"
  let ?wa = "w1\<lparr>session_table := ?ta\<rparr>"
  have c: "complete_step env w1 sender key d = (Inr key, ?wa)"
    using assms(1,2,5) by (rule complete_step_ok)
  have sa: "set (status_of ?ta key) = {Some ''completed''}"
    using assms(3) by (simp add: status_of_completed session_ids_def)
  have ia: "key \<in> set (map session_id ?ta)"
    using assms(3) by (simp add: ids_update session_ids_def)
  obtain kb wb where ro: "reopen_step env ?wa sender key d = (Inr kb, wb)"
      and sb: "set (status_of (session_table wb) key) = {Some ''completed''}"
      and kb: "kb \<in> set (map session_id (session_table wb)) \<or> kb \<noteq> key"
  proof (cases "reopens d")
    case True
    let ?u = "uuid4 env ReopenedSessionId"
    let ?wb = "?wa\<lparr>session_table := put_item (new_session ?u sender (time env)) (session_table ?wa)\<rparr>"
    have "reopen_step env ?wa sender key d = (Inr ?u, ?wb)"
      using True assms(2,6) by (rule reopen_step_ok)
    moreover have "set (status_of (session_table ?wb) key) = {Some ''completed''}"
      using sa assms(4) by (simp add: status_of_put)
    ultimately show ?thesis using that assms(4) by blast
  next
    case False
    then have "reopen_step env ?wa sender key d = (Inr key, ?wa)"
      by (rule reopen_step_skip)
    with sa ia show ?thesis using that by simp
  qed
  obtain wc where li: "limit_step env wb kb d = (Inr kb, wc)"
      and sc: "set (status_of (session_table wc) key) = {Some ''completed''}"
  proof (cases "limits d \<and> kb \<noteq> []")
    case True
    let ?wc = "wb\<lparr>session_table :=
          update_item kb
            (\<lambda>s. s\<lparr>user_limited_until := Some (py_get d ''user_limited_until'' PyNone),
                    updated_at := Some (time env)\<rparr>)
            (session_table wb)\<rparr>"
    have "limit_step env wb kb d = (Inr kb, ?wc)"
      using True assms(7) by (intro limit_step_ok) simp_all
    moreover have "set (status_of (session_table ?wc) key) = {Some ''completed''}"
      using sb kb by (simp add: status_of_limited)
    ultimately show ?thesis using that by blast
  next
    case False
    then have "limit_step env wb kb d = (Inr kb, wb)"
      by (rule limit_step_skip)
    with sb show ?thesis using that by simp
  qed
  have "apply_decision env w1 sender key d = (Inr kb, wc)"
    using c ro li by (simp add: apply_decision_def)
  with sc show ?thesis by (auto simp: statuses_table)
qed

lemma reply_user_ok:
  "get_reply_message env w sender = (Inr t, w1) \<Longrightarrow>
     reply_user env w sender =
       (Inr (summary env (fst (snd t))), snd (gather (cycle_tasks env sender t) w1))"
  by (simp add: reply_user_def split: prod.splits)

lemma cycle_tasks_feedback:
  assumes "truthy is_complete"
      and "\<And>w'. download_media_files env w' (setitem ''sender_id'' (PyStr sender) fd) =
             (Inr (), w'\<lparr>feedback_db := feedback_db w' @ [fb]\<rparr>)"
  shows "feedback_db (snd (gather
            (cycle_tasks env sender (reply, key, persist, stage, is_complete, fd)) w))
         = feedback_db w @ [fb]"
  using assms
  by (auto simp: cycle_tasks_def send_whatsapp_message_def save_chat_message_def
      split: prod.splits)

lemma payload_fields:
  assumes "completes d"
  shows "py_get (setitem ''sender_id'' (PyStr sender) (feedback_payload d)) ''sender_id'' PyNone
           = PyStr sender"
    and "py_get (setitem ''sender_id'' (PyStr sender) (feedback_payload d)) ''product_name'' PyNone
           = py_get d ''product_name'' (PyStr [])"
    and "py_get (setitem ''sender_id'' (PyStr sender) (feedback_payload d)) ''feedback_text'' PyNone
           = py_get d ''feedback'' (PyStr [])"
    and "py_get (setitem ''sender_id'' (PyStr sender) (feedback_payload d)) ''media_urls'' (PyList [])
           = py_get d ''media_urls'' (PyList [])"
  using assms
  by (simp_all add: completes_def feedback_payload_def setitem_def py_get_def)

lemma resolve_key_in:
  assumes "resolve_conversation env w sender = (Inr (messages, key), w1)"
  shows "key \<in> set (session_ids w1)"
proof -
  from resolve_cases [OF assms]
  consider "key = uuid4 env NewSessionId"
      "w1 = w\<lparr>session_table :=
                 put_item (new_session (uuid4 env NewSessionId) sender (time env))
                   (session_table w)\<rparr>"
    | s where "w1 = w" "query_active (session_table w) sender = [s]" "key = session_id s"
    by auto
  then show ?thesis
  proof cases
    case 1
    then show ?thesis
      by (simp add: session_ids_def put_item_def new_session_def)
  next
    case 2
    from query_active_Cons [OF 2(2)] have "s \<in> set (session_table w)" by simp
    with 2(1,3) show ?thesis by (auto simp: session_ids_def)
  qed
qed

lemma cycle_tasks_no_feedback:
  assumes "\<And>w'. download_media_files env w' (setitem ''sender_id'' (PyStr sender) fd) =
             (Inl e, w')"
  shows "feedback_db (snd (gather
            (cycle_tasks env sender (reply, key, persist, stage, is_complete, fd)) w))
         = feedback_db w"
  using assms
  by (auto simp: cycle_tasks_def send_whatsapp_message_def save_chat_message_def
      split: prod.splits)

text \<open>
  C5 fails at a decision whose \<open>media_urls\<close> is \<open>null\<close>. The session S1 has one stored
  message and the decision completes the feedback: the cycle marks S1 completed and
  returns the summary, but \<open>len(media_urls)\<close> raises in the gathered task and no
  feedback record is written.
\<close>

theorem feedback_lost_counterexample:
  "analyze_conversation (llm demo_null_media_env) [TextMsg (PyStr ''My iPad is great'') Inbound] =
       Inr \<lparr>decision = demo_null_media, model_calls = 1, slept = 0\<rparr>
   \<and> map_of demo_null_media ''is_feedback_session_complete'' = Some (PyBool True)
   \<and> fst (reply_user demo_null_media_env demo_world ''155512345'') =
        Inr [(''session_id'', PyStr ''S1''), (''message_id'', PyStr ''M1''),
             (''status'', PyStr ''sent'')]
   \<and> statuses (snd (reply_user demo_null_media_env demo_world ''155512345'')) ''S1'' =
        [Some ''completed'']
   \<and> feedback_db (snd (reply_user demo_null_media_env demo_world ''155512345'')) = []"
  by code_simp

text \<open>
  C5, amended. Take a cycle whose session and history are resolved, whose decision has
  \<open>is_feedback_session_complete\<close> true, and in which the session updates do not fail.
  Then the session of the cycle has status \<open>completed\<close> afterwards. If the decision's
  \<open>media_urls\<close> is a list (or is absent) and the feedback store accepts the write,
  exactly one feedback record is added: for this sender, with the decision's
  \<open>product_name\<close> and \<open>feedback\<close>, and with the URLs the relay gave for the references
  of the list; each of them is under the bucket's \<open>feedback-media/\<close> prefix, addresses
  an object whose \<open>put_object\<close> succeeded, and has the identifiers of one of the
  references in its key. If \<open>media_urls\<close> has no length (\<open>null\<close>, a number, a boolean),
  no feedback record is added.
\<close>

theorem feedback_record_on_completion:
  assumes "resolve_conversation env w sender = (Inr (messages, key), w1)"
      and "analyze_conversation (llm env) messages = Inr a"
      and "map_of (decision a) ''is_feedback_session_complete'' = Some (PyBool True)"
      and "key \<noteq> []"
      and "uuid4 env ReopenedSessionId \<noteq> key"
      and "\<not> fails env UpdateCompleted" and "\<not> fails env PutReopened"
      and "\<not> fails env UpdateLimited"
  shows "set (statuses (snd (reply_user env w sender)) key) = {Some ''completed''}
       \<and> (py_get (decision a) ''media_urls'' (PyList []) = PyList urls
            \<and> \<not> fails env CommitFeedback \<longrightarrow>
            feedback_db (snd (reply_user env w sender)) =
              feedback_db w @
                [\<lparr>fb_sender_id = PyStr sender,
                  fb_product_name = py_get (decision a) ''product_name'' (PyStr []),
                  fb_feedback_text = py_get (decision a) ''feedback'' (PyStr []),
                  fb_media_urls = PyList (concat (map (relayed_url env) urls))\<rparr>]
            \<and> list_all (\<lambda>v. durable_url env v \<and> stored_object env v
                          \<and> list_ex (\<lambda>u. relayed_from env u v) urls)
                 (concat (map (relayed_url env) urls)))
       \<and> (py_len (py_get (decision a) ''media_urls'' (PyList [])) = None \<longrightarrow>
            feedback_db (snd (reply_user env w sender)) = feedback_db w)"
proof -
  let ?d = "decision a"
  let ?fb = "\<lparr>fb_sender_id = PyStr sender,
               fb_product_name = py_get ?d ''product_name'' (PyStr []),
               fb_feedback_text = py_get ?d ''feedback'' (PyStr []),
               fb_media_urls = PyList (concat (map (relayed_url env) urls))\<rparr>"
  let ?fd = "setitem ''sender_id'' (PyStr sender) (feedback_payload ?d)"
  have comp: "completes ?d"
    using assms(3) by (simp add: completes_def py_get_def)
  have "key \<in> set (session_ids w1)"
    using assms(1) by (rule resolve_key_in)
  with comp assms(4-8) obtain key2 w2
    where ap: "apply_decision env w1 sender key ?d = (Inr key2, w2)"
      and st: "set (statuses w2 key) = {Some ''completed''}"
    using apply_decision_completed by blast
  have grm: "get_reply_message env w sender = (Inr (reply_of ?d key2), w2)"
    using assms(1,2) ap by (simp add: get_reply_message_def)
  from get_reply_frame [of env w sender] grm have fw2: "feedback_db w2 = feedback_db w"
    by auto
  let ?t = "reply_of ?d key2"
  let ?w3 = "snd (gather (cycle_tasks env sender ?t) w2)"
  have ru: "snd (reply_user env w sender) = ?w3"
    using reply_user_ok [OF grm] by simp
  have "session_table ?w3 = session_table w2"
    by (rule cycle_tasks_session_table)
  then have s3: "set (statuses ?w3 key) = {Some ''completed''}"
    using st by (simp add: statuses_def)
  have listed: "feedback_db ?w3 = feedback_db w @ [?fb]"
    if media: "py_get ?d ''media_urls'' (PyList []) = PyList urls"
      and commit: "\<not> fails env CommitFeedback"
  proof -
    have dl: "download_media_files env w' ?fd
        = (Inr (), w'\<lparr>feedback_db := feedback_db w' @ [?fb]\<rparr>)" for w'
      using download_media_files_list [of ?fd urls env w'] media commit
      by (simp add: payload_fields [OF comp])
    have "feedback_db ?w3 = feedback_db w2 @ [?fb]"
      unfolding reply_of_def
      using comp dl by (intro cycle_tasks_feedback) (simp_all add: completes_def)
    with fw2 show ?thesis by simp
  qed
  have lost: "feedback_db ?w3 = feedback_db w"
    if nolen: "py_len (py_get ?d ''media_urls'' (PyList [])) = None"
  proof -
    have dl: "download_media_files env w' ?fd = (Inl TypeError, w')" for w'
      using nolen by (intro download_media_files_no_len) (simp add: payload_fields [OF comp])
    have "feedback_db ?w3 = feedback_db w2"
      unfolding reply_of_def
      using dl by (rule cycle_tasks_no_feedback)
    with fw2 show ?thesis by simp
  qed
  have stored: "list_all (\<lambda>v. durable_url env v \<and> stored_object env v
                          \<and> list_ex (\<lambda>u. relayed_from env u v) urls)
                 (concat (map (relayed_url env) urls))"
    by (rule relayed_all_stored)
  show ?thesis
    unfolding ru
  proof (intro conjI impI)
    show "set (statuses ?w3 key) = {Some ''completed''}"
      by (rule s3)
  next
    assume "py_get ?d ''media_urls'' (PyList []) = PyList urls \<and> \<not> fails env CommitFeedback"
    then show "feedback_db ?w3 = feedback_db w @ [?fb]"
      by (intro listed) simp_all
  next
    show "list_all (\<lambda>v. durable_url env v \<and> stored_object env v
                          \<and> list_ex (\<lambda>u. relayed_from env u v) urls)
                 (concat (map (relayed_url env) urls))"
      by (rule stored)
  next
    assume "py_len (py_get ?d ''media_urls'' (PyList [])) = None"
    then show "feedback_db ?w3 = feedback_db w"
      by (rule lost)
  qed
qed


text \<open>
  The session S1 with one stored message. The first decision completes the feedback
  with three media references: one is relayed, one is unknown to the provider, and the
  upload of the third fails; the record holds the one URL of the stored object. The
  second decision has \<open>null\<close> as \<open>media_urls\<close>: S1 is completed and no record is
  written.
\<close>

theorem feedback_record_on_completion_witness:
  "resolve_conversation demo_complete_env demo_world ''155512345'' =
     (Inr ([TextMsg (PyStr ''My iPad is great'') Inbound], ''S1''), demo_world)
   \<and> analyze_conversation (llm demo_complete_env) [TextMsg (PyStr ''My iPad is great'') Inbound] =
       Inr \<lparr>decision = demo_complete, model_calls = 1, slept = 0\<rparr>
   \<and> map_of demo_complete ''is_feedback_session_complete'' = Some (PyBool True)
   \<and> py_get demo_complete ''media_urls'' (PyList []) =
       PyList [PyStr (demo_ref ''MM1'' ''ME1''), PyStr (demo_ref ''MM9'' ''ME9''),
               PyStr (demo_ref ''MM3'' ''ME3'')]
   \<and> statuses demo_world ''S1'' = [Some ''active'']
   \<and> set (statuses (snd (reply_user demo_complete_env demo_world ''155512345'')) ''S1'') =
       {Some ''completed''}
   \<and> feedback_db (snd (reply_user demo_complete_env demo_world ''155512345'')) =
       [\<lparr>fb_sender_id = PyStr ''155512345'', fb_product_name = PyStr ''AirPods Pro'',
         fb_feedback_text = PyStr ''it is great'',
         fb_media_urls = PyList
           [PyStr ''https://feedback-bucket.s3.amazonaws.com/feedback-media/MM1/ME1.jpeg'']\<rparr>]
   \<and> list_all
        (\<lambda>v. durable_url demo_complete_env v \<and> stored_object demo_complete_env v
           \<and> list_ex (\<lambda>u. relayed_from demo_complete_env u v)
               [PyStr (demo_ref ''MM1'' ''ME1''), PyStr (demo_ref ''MM9'' ''ME9''),
                PyStr (demo_ref ''MM3'' ''ME3'')])
        [PyStr ''https://feedback-bucket.s3.amazonaws.com/feedback-media/MM1/ME1.jpeg'']
   \<and> put_object_fails demo_complete_env ''feedback-media/MM3/ME3.jpeg''
   \<and> resolve_conversation demo_null_media_env demo_world ''155512345'' =
       (Inr ([TextMsg (PyStr ''My iPad is great'') Inbound], ''S1''), demo_world)
   \<and> analyze_conversation (llm demo_null_media_env)
         [TextMsg (PyStr ''My iPad is great'') Inbound] =
       Inr \<lparr>decision = demo_null_media, model_calls = 1, slept = 0\<rparr>
   \<and> map_of demo_null_media ''is_feedback_session_complete'' = Some (PyBool True)
   \<and> py_len (py_get demo_null_media ''media_urls'' (PyList [])) = None
   \<and> set (statuses (snd (reply_user demo_null_media_env demo_world ''155512345'')) ''S1'') =
       {Some ''completed''}
   \<and> feedback_db (snd (reply_user demo_null_media_env demo_world ''155512345'')) = []"
proof -
  let ?E = "demo_complete_env"
  let ?N = "demo_null_media_env"
  let ?h = "[TextMsg (PyStr ''My iPad is great'') Inbound]"
  let ?a = "\<lparr>decision = demo_complete, model_calls = 1, slept = 0\<rparr>"
  let ?b = "\<lparr>decision = demo_null_media, model_calls = 1, slept = 0\<rparr>"
  let ?urls = "[PyStr (demo_ref ''MM1'' ''ME1''), PyStr (demo_ref ''MM9'' ''ME9''),
                PyStr (demo_ref ''MM3'' ''ME3'')]"
  have h1: "resolve_conversation ?E demo_world ''155512345'' = (Inr (?h, ''S1''), demo_world)"
    by code_simp
  have h2: "analyze_conversation (llm ?E) ?h = Inr ?a"
    by code_simp
  have h3: "map_of (decision ?a) ''is_feedback_session_complete'' = Some (PyBool True)"
    by (simp add: demo_complete_def)
  have h4: "py_get (decision ?a) ''media_urls'' (PyList []) = PyList ?urls"
    by (simp add: demo_complete_def py_get_def)
  have h5: "''S1'' \<noteq> []"
    by simp
  have h6: "uuid4 ?E ReopenedSessionId \<noteq> ''S1''"
    by code_simp
  have f1: "\<not> fails ?E UpdateCompleted" by code_simp
  have f2: "\<not> fails ?E PutReopened" by code_simp
  have f3: "\<not> fails ?E UpdateLimited" by code_simp
  have f4: "\<not> fails ?E CommitFeedback" by code_simp
  have n1: "resolve_conversation ?N demo_world ''155512345'' = (Inr (?h, ''S1''), demo_world)"
    by code_simp
  have n2: "analyze_conversation (llm ?N) ?h = Inr ?b"
    by code_simp
  have n3: "map_of (decision ?b) ''is_feedback_session_complete'' = Some (PyBool True)"
    by (simp add: demo_null_media_def)
  have n4: "py_len (py_get (decision ?b) ''media_urls'' (PyList [])) = None"
    by (simp add: demo_null_media_def py_get_def)
  have n6: "uuid4 ?N ReopenedSessionId \<noteq> ''S1''"
    by code_simp
  have g1: "\<not> fails ?N UpdateCompleted" by code_simp
  have g2: "\<not> fails ?N PutReopened" by code_simp
  have g3: "\<not> fails ?N UpdateLimited" by code_simp
  have rel: "concat (map (relayed_url ?E) ?urls) =
      [PyStr ''https://feedback-bucket.s3.amazonaws.com/feedback-media/MM1/ME1.jpeg'']"
    by code_simp
  have d: "py_get (decision ?a) ''product_name'' (PyStr []) = PyStr ''AirPods Pro''
      \<and> py_get (decision ?a) ''feedback'' (PyStr []) = PyStr ''it is great''"
    by (simp add: demo_complete_def py_get_def)
  have w0: "feedback_db demo_world = [] \<and> statuses demo_world ''S1'' = [Some ''active'']"
    by code_simp
  have up: "put_object_fails ?E ''feedback-media/MM3/ME3.jpeg''"
    by code_simp
  note listed = feedback_record_on_completion [where urls = ?urls, OF h1 h2 h3 h5 h6 f1 f2 f3]
  note null = feedback_record_on_completion [where urls = "[]", OF n1 n2 n3 h5 n6 g1 g2 g3]
  from listed h4 f4
  have r1: "set (statuses (snd (reply_user ?E demo_world ''155512345'')) ''S1'') = {Some ''completed''}
      \<and> feedback_db (snd (reply_user ?E demo_world ''155512345'')) =
          [\<lparr>fb_sender_id = PyStr ''155512345'', fb_product_name = PyStr ''AirPods Pro'',
            fb_feedback_text = PyStr ''it is great'',
            fb_media_urls = PyList
              [PyStr ''https://feedback-bucket.s3.amazonaws.com/feedback-media/MM1/ME1.jpeg'']\<rparr>]
      \<and> list_all
           (\<lambda>v. durable_url ?E v \<and> stored_object ?E v
              \<and> list_ex (\<lambda>u. relayed_from ?E u v) ?urls)
           [PyStr ''https://feedback-bucket.s3.amazonaws.com/feedback-media/MM1/ME1.jpeg'']"
    by (simp only: rel d w0 append_Nil simp_thms)
  from null n4
  have r2: "set (statuses (snd (reply_user ?N demo_world ''155512345'')) ''S1'') = {Some ''completed''}
      \<and> feedback_db (snd (reply_user ?N demo_world ''155512345'')) = []"
    by (simp only: w0 simp_thms)
  have h3': "map_of demo_complete ''is_feedback_session_complete'' = Some (PyBool True)"
      and h4': "py_get demo_complete ''media_urls'' (PyList []) = PyList ?urls"
      and n3': "map_of demo_null_media ''is_feedback_session_complete'' = Some (PyBool True)"
      and n4': "py_len (py_get demo_null_media ''media_urls'' (PyList [])) = None"
    using h3 h4 n3 n4 by simp_all
  show ?thesis
    using h1 h2 h3' h4' w0 r1 up n1 n2 n3' n4' r2 by (simp only: simp_thms)
qed

lemma filter_key_update:
  assumes "key \<in> set (map session_id tbl)" and "\<And>s. session_id (f s) = session_id s"
  shows "filter (\<lambda>s. session_id s = key) (update_item key f tbl)
         = map f (filter (\<lambda>s. session_id s = key) tbl)"
proof -
  from assms(1) have "list_ex (\<lambda>s. session_id s = key) tbl"
    by (auto simp: list_ex_iff)
  moreover have "filter (\<lambda>s. session_id s = key)
        (map (\<lambda>s. if session_id s = key then f s else s) tbl)
      = map f (filter (\<lambda>s. session_id s = key) tbl)"
    using assms(2) by (induction tbl) auto
  ultimately show ?thesis by (simp add: update_item_def)
qed

lemma limited_after_update:
  assumes "key \<in> set (map session_id tbl)"
  shows "set (map user_limited_until (filter (\<lambda>s. session_id s = key)
            (update_item key (\<lambda>s. s\<lparr>user_limited_until := Some v, updated_at := Some t\<rparr>) tbl)))
         = {Some v}"
proof -
  from assms obtain s where "s \<in> set tbl" "session_id s = key" by auto
  then have "s \<in> set (filter (\<lambda>s. session_id s = key) tbl)" by simp
  then have ne: "set (map (\<lambda>s. Some v) (filter (\<lambda>s. session_id s = key) tbl)) = {Some v}"
    by (cases "filter (\<lambda>s. session_id s = key) tbl") auto
  show ?thesis
    using assms ne by (simp add: filter_key_update comp_def)
qed

lemma mem_update_other:
  "s \<in> set tbl \<Longrightarrow> session_id s \<noteq> k \<Longrightarrow> s \<in> set (update_item k f tbl)"
  by (auto simp: update_item_def)

lemma mem_put_other:
  "s \<in> set tbl \<Longrightarrow> session_id s \<noteq> session_id item \<Longrightarrow> s \<in> set (put_item item tbl)"
  by (simp add: put_item_def)

lemma put_fresh:
  "session_id item \<notin> set (map session_id tbl) \<Longrightarrow> put_item item tbl = item # tbl"
proof -
  assume "session_id item \<notin> set (map session_id tbl)"
  then have "filter (\<lambda>s. session_id s \<noteq> session_id item) tbl = tbl"
    by (induction tbl) auto
  then show ?thesis by (simp add: put_item_def)
qed

lemma status_of_fresh:
  "new \<notin> set (map session_id tbl) \<Longrightarrow>
     status_of (new_session new sender t # tbl) new = [Some ''active'']"
proof -
  assume "new \<notin> set (map session_id tbl)"
  then have "filter (\<lambda>s. session_id s = new) tbl = []"
    by (induction tbl) auto
  then show ?thesis by (simp add: status_of_def new_session_def)
qed

lemma ids_put: "set (map session_id (put_item item tbl)) = insert (session_id item) (set (map session_id tbl))"
  by (auto simp: put_item_def)

lemma empty_session_resolved:
  assumes "query_active (session_table w) sender = s0 # others"
      and "session_chats (chat_table w) (session_id s0) = []"
      and "uuid4 env NewSessionId \<notin> set (session_ids w)"
      and "\<not> fails env QuerySessions" and "\<not> fails env QueryChats"
      and "\<not> fails env PutNewSession"
  shows "resolve_conversation env w sender =
     (Inr ([], uuid4 env NewSessionId),
      w\<lparr>session_table :=
          new_session (uuid4 env NewSessionId) sender (time env) # session_table w\<rparr>)"
proof -
  have "get_user_unresolved_session_message env w sender = Inr None"
    using assms(1,2,4,5) by (simp add: get_user_unresolved_session_message_def)
  moreover have "put_item (new_session (uuid4 env NewSessionId) sender (time env)) (session_table w)
      = new_session (uuid4 env NewSessionId) sender (time env) # session_table w"
    using assms(3) by (intro put_fresh) (simp add: new_session_def session_ids_def)
  ultimately show ?thesis
    using assms(6) by (simp add: resolve_conversation_def)
qed

lemma apply_decision_new:
  fixes env sender d tbl0
  defines "new \<equiv> uuid4 env NewSessionId" and "re \<equiv> uuid4 env ReopenedSessionId"
  assumes w1: "session_table w1 = new_session new sender (time env) # tbl0"
      and s0: "s0 \<in> set tbl0"
      and fresh: "new \<notin> set (map session_id tbl0)" "re \<notin> set (map session_id tbl0)"
      and ne: "re \<noteq> new" "new \<noteq> []" "re \<noteq> []"
      and ok: "\<not> fails env UpdateCompleted" "\<not> fails env PutReopened"
        "\<not> fails env UpdateLimited"
  shows "\<exists>w2. apply_decision env w1 sender new d = (Inr (final_key env d), w2)
           \<and> s0 \<in> set (session_table w2)
           \<and> set (statuses w2 new) = {if completes d then Some ''completed'' else Some ''active''}
           \<and> (\<not> limits d \<or>
                set (limited_until_of w2 (final_key env d))
                  = {Some (py_get d ''user_limited_until'' PyNone)})"
proof -
  let ?X = "if completes d then Some ''completed'' else Some ''active''"
  have id0: "session_id s0 \<noteq> new" "session_id s0 \<noteq> re"
    using s0 fresh by auto
  have in1: "s0 \<in> set (session_table w1)" "new \<in> set (map session_id (session_table w1))"
    using w1 s0 by (simp_all add: new_session_def)
  have st1: "status_of (session_table w1) new = [Some ''active'']"
    using w1 fresh(1) by (simp add: status_of_fresh)
  obtain wa where ca: "complete_step env w1 sender new d = (Inr new, wa)"
      and sa: "s0 \<in> set (session_table wa)"
      and ia: "new \<in> set (map session_id (session_table wa))"
      and xa: "set (status_of (session_table wa) new) = {?X}"
  proof (cases "completes d")
    case True
    let ?wa = "w1\<lparr>session_table :=
          update_item new (\<lambda>s. s\<lparr>status := Some ''completed'', updated_at := Some (time env)\<rparr>)
            (session_table w1)\<rparr>"
    have "complete_step env w1 sender new d = (Inr new, ?wa)"
      using True ne(2) ok(1) by (rule complete_step_ok)
    moreover have "s0 \<in> set (session_table ?wa)"
      using in1(1) id0(1) by (simp add: mem_update_other)
    moreover have "new \<in> set (map session_id (session_table ?wa))"
      using in1(2) by (simp add: ids_update)
    moreover have "set (status_of (session_table ?wa) new) = {?X}"
      using True in1(2) by (simp add: status_of_completed)
    ultimately show ?thesis using that by blast
  next
    case False
    then have "complete_step env w1 sender new d = (Inr new, w1)"
      by (rule complete_step_skip)
    with in1 st1 False show ?thesis using that by simp
  qed
  obtain wb where rb: "reopen_step env wa sender new d = (Inr (final_key env d), wb)"
      and sb: "s0 \<in> set (session_table wb)"
      and ib: "final_key env d \<in> set (map session_id (session_table wb))"
      and xb: "set (status_of (session_table wb) new) = {?X}"
  proof (cases "reopens d")
    case True
    let ?wb = "wa\<lparr>session_table :=
          put_item (new_session re sender (time env)) (session_table wa)\<rparr>"
    have "reopen_step env wa sender new d = (Inr re, ?wb)"
      unfolding re_def using True ne(2) ok(2) by (rule reopen_step_ok)
    moreover have "s0 \<in> set (session_table ?wb)"
      using sa id0(2) by (simp add: mem_put_other new_session_def)
    moreover have "re \<in> set (map session_id (session_table ?wb))"
      using ids_put [of "new_session re sender (time env)" "session_table wa"]
      by (simp add: new_session_def)
    moreover have "set (status_of (session_table ?wb) new) = {?X}"
      using xa ne(1) by (simp add: status_of_put)
    moreover have "final_key env d = re"
      using True by (simp add: final_key_def re_def)
    ultimately show ?thesis using that by simp
  next
    case False
    then have "reopen_step env wa sender new d = (Inr new, wa)"
      by (rule reopen_step_skip)
    moreover have "final_key env d = new"
      using False by (simp add: final_key_def new_def)
    ultimately show ?thesis using that sa ia xa by simp
  qed
  have kne: "final_key env d \<noteq> []"
    using ne(2,3) by (simp add: final_key_def new_def re_def)
  have kid: "session_id s0 \<noteq> final_key env d"
    using id0 by (simp add: final_key_def new_def re_def)
  obtain wc where lc: "limit_step env wb (final_key env d) d = (Inr (final_key env d), wc)"
      and sc: "s0 \<in> set (session_table wc)"
      and xc: "set (status_of (session_table wc) new) = {?X}"
      and mc: "\<not> limits d \<or>
                set (limited_until_of wc (final_key env d))
                  = {Some (py_get d ''user_limited_until'' PyNone)}"
  proof (cases "limits d")
    case True
    let ?wc = "wb\<lparr>session_table :=
          update_item (final_key env d)
            (\<lambda>s. s\<lparr>user_limited_until := Some (py_get d ''user_limited_until'' PyNone),
                    updated_at := Some (time env)\<rparr>)
            (session_table wb)\<rparr>"
    have "limit_step env wb (final_key env d) d = (Inr (final_key env d), ?wc)"
      using True kne ok(3) by (rule limit_step_ok)
    moreover have "s0 \<in> set (session_table ?wc)"
      using sb kid by (simp add: mem_update_other)
    moreover have "set (status_of (session_table ?wc) new) = {?X}"
      using xb ib by (simp add: status_of_limited)
    moreover have "set (limited_until_of ?wc (final_key env d))
        = {Some (py_get d ''user_limited_until'' PyNone)}"
    proof -
      have "session_table ?wc = update_item (final_key env d)
            (\<lambda>s. s\<lparr>user_limited_until := Some (py_get d ''user_limited_until'' PyNone),
                    updated_at := Some (time env)\<rparr>)
            (session_table wb)"
        by simp
      then show ?thesis
        unfolding limited_until_of_def
        using limited_after_update [OF ib] by (simp only:)
    qed
    ultimately show ?thesis using that by blast
  next
    case False
    then have "limit_step env wb (final_key env d) d = (Inr (final_key env d), wb)"
      by (intro limit_step_skip) simp
    with sb xb False show ?thesis using that by simp
  qed
  have "apply_decision env w1 sender new d = (Inr (final_key env d), wc)"
    using ca rb lc by (simp add: apply_decision_def)
  with sc xc mc show ?thesis
    by (auto simp: statuses_table)
qed

lemma download_chat_table:
  "download_media_files env w fd = (r, w1) \<Longrightarrow> chat_table w1 = chat_table w"
  by (auto simp: download_media_files_def save_feedback_data_def Let_def
      split: option.splits sum.splits if_splits prod.splits)

lemma cycle_tasks_chat:
  assumes "truthy persist" and "\<not> fails env PutChat"
  shows "chat_table (snd (gather
            (cycle_tasks env sender (reply, key, persist, stage, is_complete, fd)) w))
         = put_chat (outbound_chat env sender key reply stage) (chat_table w)"
  using assms
  by (auto simp: cycle_tasks_def send_whatsapp_message_def save_chat_message_def
      dest!: download_chat_table split: prod.splits)

text \<open>
  C10, amended. The sender's active session \<open>s0\<close> has no stored chat message, the
  generated ids are new and the session store does not fail. Then the cycle does not
  reuse \<open>s0\<close>: it puts a second active session with a new id and classifies the empty
  history. \<open>s0\<close> is still in the table, unchanged and active, after the cycle; the
  completion mark goes to the new session. The summary, the stored outbound message
  and the \<open>user_limited_until\<close> marker carry the new session's id, unless the decision
  sets \<open>reopen_session\<close>: then they carry the id of the session the reopen opened.
\<close>

theorem empty_session_not_reused:
  assumes "query_active (session_table w) sender = s0 # others"
      and "session_chats (chat_table w) (session_id s0) = []"
      and "uuid4 env NewSessionId \<notin> set (session_ids w)"
      and "uuid4 env ReopenedSessionId \<notin> set (session_ids w)"
      and "uuid4 env ReopenedSessionId \<noteq> uuid4 env NewSessionId"
      and "uuid4 env NewSessionId \<noteq> []" and "uuid4 env ReopenedSessionId \<noteq> []"
      and "analyze_conversation (llm env) [] = Inr a"
      and "\<not> fails env QuerySessions" and "\<not> fails env QueryChats"
      and "\<not> fails env PutNewSession" and "\<not> fails env UpdateCompleted"
      and "\<not> fails env PutReopened" and "\<not> fails env UpdateLimited"
  shows "resolve_conversation env w sender =
           (Inr ([], uuid4 env NewSessionId),
            w\<lparr>session_table :=
                new_session (uuid4 env NewSessionId) sender (time env) # session_table w\<rparr>)
       \<and> fst (reply_user env w sender) = Inr (summary env (final_key env (decision a)))
       \<and> s0 \<in> set (session_table (snd (reply_user env w sender)))
       \<and> is_active_of sender s0
       \<and> set (statuses (snd (reply_user env w sender)) (uuid4 env NewSessionId)) =
           {if completes (decision a) then Some ''completed'' else Some ''active''}
       \<and> (limits (decision a) \<longrightarrow>
            set (limited_until_of (snd (reply_user env w sender)) (final_key env (decision a)))
              = {Some (py_get (decision a) ''user_limited_until'' PyNone)})
       \<and> (truthy (py_get (decision a) ''should_persist_reply'' (PyBool True))
            \<and> \<not> fails env PutChat \<longrightarrow>
            chat_table (snd (reply_user env w sender)) =
              put_chat
                (outbound_chat env sender (final_key env (decision a))
                   (py_get (decision a) ''reply'' (PyStr []))
                   (py_get (decision a) ''reply_stage'' (PyInt 0)))
                (chat_table w))"
proof -
  let ?new = "uuid4 env NewSessionId"
  let ?d = "decision a"
  let ?k = "final_key env ?d"
  let ?w1 = "w\<lparr>session_table := new_session ?new sender (time env) # session_table w\<rparr>"
  have res: "resolve_conversation env w sender = (Inr ([], ?new), ?w1)"
    using assms(1,2,3,9,10,11) by (rule empty_session_resolved)
  have s0: "s0 \<in> set (session_table w)" "is_active_of sender s0"
    using query_active_Cons [OF assms(1)] by simp_all
  have "\<exists>w2. apply_decision env ?w1 sender ?new ?d = (Inr ?k, w2)
           \<and> s0 \<in> set (session_table w2)
           \<and> set (statuses w2 ?new) = {if completes ?d then Some ''completed'' else Some ''active''}
           \<and> (\<not> limits ?d \<or>
                set (limited_until_of w2 ?k) = {Some (py_get ?d ''user_limited_until'' PyNone)})"
    using s0(1) assms(3,4,5,6,7,12,13,14)
    by (intro apply_decision_new [where ?tbl0.0 = "session_table w"])
       (simp_all add: session_ids_def)
  then obtain w2 where ap: "apply_decision env ?w1 sender ?new ?d = (Inr ?k, w2)"
      and in2: "s0 \<in> set (session_table w2)"
      and st2: "set (statuses w2 ?new) = {if completes ?d then Some ''completed'' else Some ''active''}"
      and lim2: "\<not> limits ?d \<or>
                set (limited_until_of w2 ?k) = {Some (py_get ?d ''user_limited_until'' PyNone)}"
    by blast
  have grm: "get_reply_message env w sender = (Inr (reply_of ?d ?k), w2)"
    using res assms(8) ap by (simp add: get_reply_message_def)
  let ?w3 = "snd (gather (cycle_tasks env sender (reply_of ?d ?k)) w2)"
  have ru: "reply_user env w sender = (Inr (summary env ?k), ?w3)"
    using reply_user_ok [OF grm] by (simp add: reply_of_def)
  have tbl: "session_table ?w3 = session_table w2"
    by (rule cycle_tasks_session_table)
  from get_reply_frame [of env w sender] grm have cw2: "chat_table w2 = chat_table w"
    by auto
  have chat: "chat_table ?w3 =
      put_chat (outbound_chat env sender ?k (py_get ?d ''reply'' (PyStr []))
                  (py_get ?d ''reply_stage'' (PyInt 0))) (chat_table w)"
    if "truthy (py_get ?d ''should_persist_reply'' (PyBool True))" "\<not> fails env PutChat"
    unfolding reply_of_def cw2 [symmetric]
    using that by (rule cycle_tasks_chat)
  show ?thesis
    using res ru s0(2) in2 st2 lim2 chat tbl
    by (simp add: statuses_def limited_until_of_def)
qed

text \<open>
  C10 fails at a decision that reopens. The sender's active session S1 has no stored
  message and the model sets a safety flag: the cycle opens S2 at resolution and S3 at
  the reopen, and the summary and the \<open>user_limited_until\<close> marker carry S3, not the
  new session S2.
\<close>

theorem empty_session_reopen_counterexample:
  "query_active (session_table demo_stale_world) ''155512345'' = [demo_session]
   \<and> session_chats (chat_table demo_stale_world) (session_id demo_session) = []
   \<and> fst (resolve_conversation (demo_env (demo_answer ''flagged'') no_faults) demo_stale_world
        ''155512345'') = Inr ([], ''S2'')
   \<and> fst (reply_user (demo_env (demo_answer ''flagged'') no_faults) demo_stale_world
        ''155512345'') = Inr (summary (demo_env (demo_answer ''flagged'') no_faults) ''S3'')
   \<and> fst (reply_user (demo_env (demo_answer ''flagged'') no_faults) demo_stale_world
        ''155512345'') \<noteq> Inr (summary (demo_env (demo_answer ''flagged'') no_faults) ''S2'')
   \<and> limited_until_of
        (snd (reply_user (demo_env (demo_answer ''flagged'') no_faults) demo_stale_world
           ''155512345'')) ''S2'' = [None]
   \<and> limited_until_of
        (snd (reply_user (demo_env (demo_answer ''flagged'') no_faults) demo_stale_world
           ''155512345'')) ''S3'' = [Some (PyStr ''1970-01-01T00:17:40'')]"
  by code_simp

text \<open>
  The same stale session S1. With a decision that does not reopen, the stored outbound
  message carries the new session S2 and S1 stays active; with the flagged decision,
  the marker is on the reopened session S3.
\<close>

theorem empty_session_not_reused_witness:
  "query_active (session_table demo_stale_world) ''155512345'' = [demo_session]
   \<and> session_chats (chat_table demo_stale_world) (session_id demo_session) = []
   \<and> analyze_conversation (llm (demo_env (demo_answer ''clean'') no_faults)) [] =
       Inr \<lparr>decision = demo_clean, model_calls = 1, slept = 0\<rparr>
   \<and> truthy (py_get demo_clean ''should_persist_reply'' (PyBool True))
   \<and> fst (resolve_conversation (demo_env (demo_answer ''clean'') no_faults) demo_stale_world
        ''155512345'') = Inr ([], ''S2'')
   \<and> fst (reply_user (demo_env (demo_answer ''clean'') no_faults) demo_stale_world
        ''155512345'') = Inr (summary (demo_env (demo_answer ''clean'') no_faults) ''S2'')
   \<and> demo_session \<in> set (session_table
        (snd (reply_user (demo_env (demo_answer ''clean'') no_faults) demo_stale_world
           ''155512345'')))
   \<and> is_active_of ''155512345'' demo_session
   \<and> set (statuses
        (snd (reply_user (demo_env (demo_answer ''clean'') no_faults) demo_stale_world
           ''155512345'')) ''S2'') = {Some ''active''}
   \<and> map chat_session_id (chat_table
        (snd (reply_user (demo_env (demo_answer ''clean'') no_faults) demo_stale_world
           ''155512345''))) = [''S2'']
   \<and> analyze_conversation (llm (demo_env (demo_answer ''flagged'') no_faults)) [] =
       Inr \<lparr>decision = suspend (llm (demo_env (demo_answer ''flagged'') no_faults)) demo_flagged,
            model_calls = 1, slept = 0\<rparr>
   \<and> limits (suspend (llm (demo_env (demo_answer ''flagged'') no_faults)) demo_flagged)
   \<and> set (limited_until_of
        (snd (reply_user (demo_env (demo_answer ''flagged'') no_faults) demo_stale_world
           ''155512345'')) ''S3'') = {Some (PyStr ''1970-01-01T00:17:40'')}"
proof -
  let ?E = "demo_env (demo_answer ''clean'') no_faults"
  let ?a = "\<lparr>decision = demo_clean, model_calls = 1, slept = 0\<rparr>"
  have h1: "query_active (session_table demo_stale_world) ''155512345'' = demo_session # []"
    by code_simp
  have h2: "session_chats (chat_table demo_stale_world) (session_id demo_session) = []"
    by code_simp
  have h3: "uuid4 ?E NewSessionId \<notin> set (session_ids demo_stale_world)"
    by code_simp
  have h4: "uuid4 ?E ReopenedSessionId \<notin> set (session_ids demo_stale_world)"
    by code_simp
  have h5: "uuid4 ?E ReopenedSessionId \<noteq> uuid4 ?E NewSessionId"
    by code_simp
  have h6: "uuid4 ?E NewSessionId \<noteq> []" by code_simp
  have h7: "uuid4 ?E ReopenedSessionId \<noteq> []" by code_simp
  have h8: "analyze_conversation (llm ?E) [] = Inr ?a"
    by code_simp
  have f1: "\<not> fails ?E QuerySessions" by code_simp
  have f2: "\<not> fails ?E QueryChats" by code_simp
  have f3: "\<not> fails ?E PutNewSession" by code_simp
  have f4: "\<not> fails ?E UpdateCompleted" by code_simp
  have f5: "\<not> fails ?E PutReopened" by code_simp
  have f6: "\<not> fails ?E UpdateLimited" by code_simp
  have f7: "\<not> fails ?E PutChat" by code_simp
  have p: "truthy (py_get demo_clean ''should_persist_reply'' (PyBool True))"
    by code_simp
  have k: "final_key ?E demo_clean = ''S2''" by code_simp
  have n: "uuid4 ?E NewSessionId = ''S2''" by code_simp
  have c: "\<not> completes demo_clean" by code_simp
  have ch: "map chat_session_id
      (put_chat (outbound_chat ?E ''155512345'' ''S2'' (py_get demo_clean ''reply'' (PyStr []))
         (py_get demo_clean ''reply_stage'' (PyInt 0))) (chat_table demo_stale_world)) = [''S2'']"
    by code_simp
  note inst = empty_session_not_reused [OF h1 h2 h3 h4 h5 h6 h7 h8 f1 f2 f3 f4 f5 f6]
  from inst p f7 have "chat_table (snd (reply_user ?E demo_stale_world ''155512345'')) =
      put_chat (outbound_chat ?E ''155512345'' ''S2'' (py_get demo_clean ''reply'' (PyStr []))
         (py_get demo_clean ''reply_stage'' (PyInt 0))) (chat_table demo_stale_world)"
    by (simp add: k)
  with ch have chat: "map chat_session_id
      (chat_table (snd (reply_user ?E demo_stale_world ''155512345''))) = [''S2'']"
    by simp
  let ?F = "demo_env (demo_answer ''flagged'') no_faults"
  let ?b = "\<lparr>decision = suspend (llm ?F) demo_flagged, model_calls = 1, slept = 0\<rparr>"
  have g3: "uuid4 ?F NewSessionId \<notin> set (session_ids demo_stale_world)"
    by code_simp
  have g4: "uuid4 ?F ReopenedSessionId \<notin> set (session_ids demo_stale_world)"
    by code_simp
  have g5: "uuid4 ?F ReopenedSessionId \<noteq> uuid4 ?F NewSessionId"
    by code_simp
  have g6: "uuid4 ?F NewSessionId \<noteq> []" by code_simp
  have g7: "uuid4 ?F ReopenedSessionId \<noteq> []" by code_simp
  have g8: "analyze_conversation (llm ?F) [] = Inr ?b"
    by code_simp
  have e1: "\<not> fails ?F QuerySessions" by code_simp
  have e2: "\<not> fails ?F QueryChats" by code_simp
  have e3: "\<not> fails ?F PutNewSession" by code_simp
  have e4: "\<not> fails ?F UpdateCompleted" by code_simp
  have e5: "\<not> fails ?F PutReopened" by code_simp
  have e6: "\<not> fails ?F UpdateLimited" by code_simp
  have l: "limits (suspend (llm ?F) demo_flagged)" by code_simp
  have kf: "final_key ?F (suspend (llm ?F) demo_flagged) = ''S3''" by code_simp
  have v: "py_get (suspend (llm ?F) demo_flagged) ''user_limited_until'' PyNone =
      PyStr ''1970-01-01T00:17:40''"
    by code_simp
  from empty_session_not_reused [OF h1 h2 g3 g4 g5 g6 g7 g8 e1 e2 e3 e4 e5 e6] l
  have marker: "set (limited_until_of (snd (reply_user ?F demo_stale_world ''155512345'')) ''S3'')
      = {Some (PyStr ''1970-01-01T00:17:40'')}"
    by (simp add: kf v)
  from inst h1 h2 h8 p chat g8 l marker show ?thesis
    by (simp add: k n c)
qed

subsection \<open>The active sessions of a sender\<close>

lemma active_split:
  "filter (is_active_of sender) tbl = query_active tbl sender @ stale_sessions tbl sender"
proof -
  have "filter (is_active_of sender) tbl
      = filter (\<lambda>s. status s = Some ''active'') (sender_sessions tbl sender)"
    by (induction tbl) (auto simp: sender_sessions_def is_active_of_def)
  also have "\<dots> = filter (\<lambda>s. status s = Some ''active'')
      (take 1 (sender_sessions tbl sender) @ drop 1 (sender_sessions tbl sender))"
    by simp
  finally show ?thesis
    by (simp only: filter_append query_active_def stale_sessions_def)
qed

lemma query_sees_active_iff:
  "query_sees_active w sender \<longleftrightarrow> stale_sessions (session_table w) sender = []"
  by (simp add: query_sees_active_def active_split)

lemma query_active_length: "length (query_active tbl sender) \<le> 1"
proof -
  have "length (query_active tbl sender) \<le> length (take 1 (sender_sessions tbl sender))"
    unfolding query_active_def by (rule length_filter_le)
  then show ?thesis by simp
qed

lemma query_sees_count: "query_sees_active w sender \<Longrightarrow> count_active w sender \<le> 1"
  using query_active_length [of "session_table w" sender]
  by (simp add: query_sees_active_def count_active_def)

lemma stale_put_new:
  assumes "query_active tbl sender = []" and "stale_sessions tbl sender = []"
  shows "stale_sessions (put_item (new_session u sender t) tbl) sender = []"
proof -
  have none: "filter (is_active_of sender) tbl = []"
    using assms by (simp add: active_split)
  have "sender_sessions (put_item (new_session u sender t) tbl) sender
      = new_session u sender t # sender_sessions (filter (\<lambda>s. session_id s \<noteq> u) tbl) sender"
    by (simp add: put_item_def sender_sessions_def new_session_def)
  then have "stale_sessions (put_item (new_session u sender t) tbl) sender
      = filter (\<lambda>s. status s = Some ''active'')
          (sender_sessions (filter (\<lambda>s. session_id s \<noteq> u) tbl) sender)"
    by (simp add: stale_sessions_def)
  also have "\<dots> = filter (\<lambda>s. session_id s \<noteq> u) (filter (is_active_of sender) tbl)"
    by (induction tbl) (auto simp: sender_sessions_def is_active_of_def)
  finally show ?thesis using none by simp
qed

lemma stale_update:
  assumes "\<And>s. sender_id (f s) = sender_id s"
      and "\<And>s. status (f s) = Some ''active'' \<Longrightarrow> status s = Some ''active''"
      and "stale_sessions tbl sender = []"
  shows "stale_sessions (update_item key f tbl) sender = []"
proof -
  let ?g = "\<lambda>s. if session_id s = key then f s else s"
  have g1: "sender_sessions (map ?g xs) sender = map ?g (sender_sessions xs sender)" for xs
    using assms(1) by (induction xs) (auto simp: sender_sessions_def)
  have g2: "filter (\<lambda>s. status s = Some ''active'') (map ?g ys) = []"
    if "filter (\<lambda>s. status s = Some ''active'') ys = []" for ys
    using that assms(2) by (induction ys) (auto split: if_splits)
  have mapped: "stale_sessions (map ?g tbl) sender = []"
    using assms(3) by (simp add: stale_sessions_def g1 drop_map g2)
  have "sender_id (f \<lparr>session_id = key, sender_id = None, status = None, created_at = None,
      updated_at = None, user_limited_until = None\<rparr>) = None"
    using assms(1) by simp
  then have appended: "stale_sessions (tbl @ [f \<lparr>session_id = key, sender_id = None,
      status = None, created_at = None, updated_at = None, user_limited_until = None\<rparr>]) sender
      = stale_sessions tbl sender"
    by (simp add: stale_sessions_def sender_sessions_def)
  show ?thesis
    using mapped appended assms(3) by (simp add: update_item_def)
qed

lemma complete_step_stale:
  "stale_sessions (session_table w) sender' = [] \<Longrightarrow>
     complete_step env w sender key result = (r, w1) \<Longrightarrow>
     stale_sessions (session_table w1) sender' = []"
  by (auto simp: complete_step_def mark_session_as_completed_def
      split: if_splits intro!: stale_update)

lemma limit_step_stale:
  "stale_sessions (session_table w) sender' = [] \<Longrightarrow>
     limit_step env w key result = (r, w1) \<Longrightarrow>
     stale_sessions (session_table w1) sender' = []"
  by (auto simp: limit_step_def mark_session_as_limited_def
      split: if_splits intro!: stale_update)

lemma apply_decision_stale:
  assumes "\<not> reopens result"
      and "stale_sessions (session_table w) sender' = []"
      and "apply_decision env w sender key result = (r, w1)"
  shows "stale_sessions (session_table w1) sender' = []"
proof -
  obtain r1 wa where c: "complete_step env w sender key result = (r1, wa)"
    by (cases "complete_step env w sender key result") auto
  have sa: "stale_sessions (session_table wa) sender' = []"
    using assms(2) c by (rule complete_step_stale)
  show ?thesis
  proof (cases r1)
    case (Inl e)
    with assms(3) c sa show ?thesis by (simp add: apply_decision_def)
  next
    case (Inr key1)
    with assms c have "limit_step env wa key1 result = (r, w1)"
      by (simp add: apply_decision_def reopen_step_skip)
    with sa show ?thesis by (rule limit_step_stale)
  qed
qed


lemma resolve_stale:
  assumes "stale_sessions (session_table w) sender = []" and "\<not> has_empty_active w sender"
      and "resolve_conversation env w sender = (r, w1)"
  shows "stale_sessions (session_table w1) sender = []"
proof -
  from resolve_cases [OF assms(3)] assms(2)
  consider "w1 = w"
    | "query_active (session_table w) sender = []"
      "w1 = w\<lparr>session_table :=
                 put_item (new_session (uuid4 env NewSessionId) sender (time env))
                   (session_table w)\<rparr>"
    by blast
  then show ?thesis
  proof cases
    case 1
    with assms(1) show ?thesis by simp
  next
    case 2
    with assms(1) show ?thesis by (simp add: stale_put_new)
  qed
qed

lemma complete_step_mem:
  "s \<in> set (session_table w) \<Longrightarrow> session_id s \<noteq> key \<Longrightarrow>
     complete_step env w sender key result = (r, w1) \<Longrightarrow> s \<in> set (session_table w1)"
  by (auto simp: complete_step_def mark_session_as_completed_def mem_update_other
      split: if_splits)

lemma reopen_step_mem:
  "s \<in> set (session_table w) \<Longrightarrow> session_id s \<noteq> uuid4 env ReopenedSessionId \<Longrightarrow>
     reopen_step env w sender key result = (r, w1) \<Longrightarrow> s \<in> set (session_table w1)"
  by (auto simp: reopen_step_def mark_session_as_completed_def mem_put_other new_session_def
      split: if_splits)

lemma reopen_step_key:
  "reopen_step env w sender key result = (Inr key1, w1) \<Longrightarrow>
     key1 = key \<or> key1 = uuid4 env ReopenedSessionId"
  by (auto simp: reopen_step_def mark_session_as_completed_def split: if_splits)

lemma limit_step_mem:
  "s \<in> set (session_table w) \<Longrightarrow> session_id s \<noteq> key \<Longrightarrow>
     limit_step env w key result = (r, w1) \<Longrightarrow> s \<in> set (session_table w1)"
  by (auto simp: limit_step_def mark_session_as_limited_def mem_update_other
      split: if_splits)

lemma apply_decision_mem:
  assumes "s \<in> set (session_table w)" and "session_id s \<noteq> key"
      and "session_id s \<noteq> uuid4 env ReopenedSessionId"
      and "apply_decision env w sender key result = (r, w1)"
  shows "s \<in> set (session_table w1)"
proof -
  obtain r1 wa where c: "complete_step env w sender key result = (r1, wa)"
    by (cases "complete_step env w sender key result") auto
  have sa: "s \<in> set (session_table wa)"
    using assms(1,2) c by (rule complete_step_mem)
  show ?thesis
  proof (cases r1)
    case (Inl e)
    with assms(4) c sa show ?thesis by (simp add: apply_decision_def)
  next
    case (Inr key1)
    with c have k1: "key1 = key" by (simp add: complete_step_key)
    obtain r2 wb where ro: "reopen_step env wa sender key result = (r2, wb)"
      by (cases "reopen_step env wa sender key result") auto
    have sb: "s \<in> set (session_table wb)"
      using sa assms(3) ro by (rule reopen_step_mem)
    show ?thesis
    proof (cases r2)
      case (Inl e)
      with assms(4) c Inr k1 ro sb show ?thesis by (simp add: apply_decision_def)
    next
      case (Inr key2)
      with ro have "key2 = key \<or> key2 = uuid4 env ReopenedSessionId"
        by (simp add: reopen_step_key)
      with assms(2,3) have ne: "session_id s \<noteq> key2" by auto
      from assms(4) c \<open>r1 = Inr key1\<close> k1 ro Inr
      have "limit_step env wb key2 result = (r, w1)"
        by (simp add: apply_decision_def)
      with sb ne show ?thesis by (rule limit_step_mem)
    qed
  qed
qed

lemma get_reply_cases:
  "(\<exists>e. get_reply_message env w sender = (Inl e, w) \<and> resolve_conversation env w sender = (Inl e, w))
   \<or> (\<exists>messages key w1 a r w2.
        resolve_conversation env w sender = (Inr (messages, key), w1)
        \<and> analyze_conversation (llm env) messages = Inr a
        \<and> apply_decision env w1 sender key (decision a) = (r, w2)
        \<and> snd (get_reply_message env w sender) = w2)"
proof -
  obtain r w1 where res: "resolve_conversation env w sender = (r, w1)"
    by (cases "resolve_conversation env w sender") auto
  show ?thesis
  proof (cases r)
    case (Inl e)
    with resolve_cases [OF res] have "w1 = w" by auto
    with res Inl show ?thesis by (simp add: get_reply_message_def)
  next
    case (Inr p)
    obtain messages key where p: "p = (messages, key)" by (cases p) auto
    obtain a where a: "analyze_conversation (llm env) messages = Inr a"
      using analyze_total by blast
    obtain r2 w2 where ap: "apply_decision env w1 sender key (decision a) = (r2, w2)"
      by (cases "apply_decision env w1 sender key (decision a)") auto
    from res Inr p have res': "resolve_conversation env w sender = (Inr (messages, key), w1)"
      by simp
    have "snd (get_reply_message env w sender) = w2"
      using res' a ap by (rule get_reply_world)
    with res' a ap show ?thesis by blast
  qed
qed

lemma resolve_new:
  assumes "query_active (session_table w) sender = [] \<or> has_empty_active w sender"
      and "\<not> fails env QuerySessions" and "\<not> fails env QueryChats"
      and "\<not> fails env PutNewSession"
  shows "resolve_conversation env w sender =
     (Inr ([], uuid4 env NewSessionId),
      w\<lparr>session_table :=
          put_item (new_session (uuid4 env NewSessionId) sender (time env))
            (session_table w)\<rparr>)"
proof -
  have "get_user_unresolved_session_message env w sender = Inr None"
    using assms(1,2,3)
    by (auto simp: get_user_unresolved_session_message_def has_empty_active_def
        split: list.splits)
  with assms(4) show ?thesis by (simp add: resolve_conversation_def)
qed

lemma resolved_existing:
  assumes "resolve_conversation env w sender = (Inr (messages, key), w1)"
      and "query_active (session_table w) sender \<noteq> []"
      and "\<not> has_empty_active w sender"
  shows "w1 = w \<and> key \<in> set (session_ids w)"
proof -
  from resolve_cases [OF assms(1)] assms(2,3)
  have "w1 = w \<and> (\<exists>s. query_active (session_table w) sender = [s] \<and> key = session_id s)"
    by (elim disjE conjE exE) simp_all
  then obtain s where same: "w1 = w" and q: "query_active (session_table w) sender = [s]"
    and k: "key = session_id s"
    by (elim conjE exE)
  from query_active_Cons [OF q] k have "key \<in> set (session_ids w)"
    by (simp add: session_ids_def)
  with same show ?thesis by simp
qed

lemma resolved_empty:
  assumes "resolve_conversation env w sender = (Inr (messages, key), w1)"
      and "query_active (session_table w) sender = s0 # others"
      and "has_empty_active w sender"
  shows "key = uuid4 env NewSessionId
       \<and> session_table w1 =
           put_item (new_session (uuid4 env NewSessionId) sender (time env)) (session_table w)"
proof -
  have ne: "session_chats (chat_table w) (session_id s0) = []"
    using assms(2,3) by (simp add: has_empty_active_def)
  have others: "others = []"
    using query_active_Cons [OF assms(2)] by simp
  have "\<not> (\<exists>s. query_active (session_table w) sender = [s]
            \<and> session_chats (chat_table w) (session_id s) \<noteq> [])"
    using assms(2) ne others by simp
  with resolve_cases [OF assms(1)]
  consider "Inr (messages, key) = (Inr ([], uuid4 env NewSessionId) :: exc + message list \<times> string)"
      "w1 = w\<lparr>session_table :=
                 put_item (new_session (uuid4 env NewSessionId) sender (time env))
                   (session_table w)\<rparr>"
    by blast
  then show ?thesis
    by cases simp
qed


lemma get_reply_stale:
  assumes "query_sees_active w sender" and "\<not> has_empty_active w sender"
      and "\<not> cycle_reopens env w sender"
  shows "stale_sessions (session_table (snd (get_reply_message env w sender))) sender = []"
proof -
  from assms(1) have st: "stale_sessions (session_table w) sender = []"
    by (simp add: query_sees_active_iff)
  from get_reply_cases [of env w sender] show ?thesis
  proof (elim disjE exE conjE)
    fix e assume "get_reply_message env w sender = (Inl e, w)"
    then have "snd (get_reply_message env w sender) = w" by simp
    with st show ?thesis by simp
  next
    fix messages key w1 a r w2
    assume res: "resolve_conversation env w sender = (Inr (messages, key), w1)"
      and a: "analyze_conversation (llm env) messages = Inr a"
      and ap: "apply_decision env w1 sender key (decision a) = (r, w2)"
      and w2: "snd (get_reply_message env w sender) = w2"
    have s1: "stale_sessions (session_table w1) sender = []"
      using st assms(2) res by (rule resolve_stale)
    have "cycle_decision env w sender = Some (decision a)"
      using res a by (rule cycle_decision_resolved)
    with assms(3) have nr: "\<not> reopens (decision a)"
      by (simp add: cycle_reopens_def)
    have "stale_sessions (session_table w2) sender = []"
      using nr s1 ap by (rule apply_decision_stale)
    with w2 show ?thesis by simp
  qed
qed

lemma get_reply_ids:
  assumes "query_active (session_table w) sender \<noteq> []" and "\<not> has_empty_active w sender"
      and "\<not> cycle_reopens env w sender"
  shows "session_ids (snd (get_reply_message env w sender)) = session_ids w"
proof -
  from get_reply_cases [of env w sender] show ?thesis
  proof (elim disjE exE conjE)
    fix e assume "get_reply_message env w sender = (Inl e, w)"
    then have "snd (get_reply_message env w sender) = w" by simp
    then show ?thesis by simp
  next
    fix messages key w1 a r w2
    assume res: "resolve_conversation env w sender = (Inr (messages, key), w1)"
      and a: "analyze_conversation (llm env) messages = Inr a"
      and ap: "apply_decision env w1 sender key (decision a) = (r, w2)"
      and w2: "snd (get_reply_message env w sender) = w2"
    from resolved_existing [OF res assms(1,2)]
    have same: "w1 = w" and key: "key \<in> set (session_ids w)"
      by simp_all
    have "cycle_decision env w sender = Some (decision a)"
      using res a by (rule cycle_decision_resolved)
    with assms(3) have nr: "\<not> reopens (decision a)"
      by (simp add: cycle_reopens_def)
    from ap same have ap': "apply_decision env w sender key (decision a) = (r, w2)"
      by simp
    have "session_ids w2 = session_ids w"
      using nr key ap' by (rule apply_decision_ids)
    with w2 show ?thesis by simp
  qed
qed

lemma get_reply_keeps:
  assumes "query_active (session_table w) sender = s0 # others"
      and "has_empty_active w sender"
      and "session_id s0 \<noteq> uuid4 env NewSessionId"
      and "session_id s0 \<noteq> uuid4 env ReopenedSessionId"
  shows "s0 \<in> set (session_table (snd (get_reply_message env w sender)))"
proof -
  have s0: "s0 \<in> set (session_table w)"
    using query_active_Cons [OF assms(1)] by simp
  from get_reply_cases [of env w sender] show ?thesis
  proof (elim disjE exE conjE)
    fix e assume "get_reply_message env w sender = (Inl e, w)"
    then have "snd (get_reply_message env w sender) = w" by simp
    with s0 show ?thesis by simp
  next
    fix messages key w1 a r w2
    assume res: "resolve_conversation env w sender = (Inr (messages, key), w1)"
      and a: "analyze_conversation (llm env) messages = Inr a"
      and ap: "apply_decision env w1 sender key (decision a) = (r, w2)"
      and w2: "snd (get_reply_message env w sender) = w2"
    from resolved_empty [OF res assms(1,2)]
    have k: "key = uuid4 env NewSessionId"
      and w1: "session_table w1 =
        put_item (new_session (uuid4 env NewSessionId) sender (time env)) (session_table w)"
      by simp_all
    have "session_id s0 \<noteq> session_id (new_session (uuid4 env NewSessionId) sender (time env))"
      using assms(3) by (simp add: new_session_def)
    with s0 have in1: "s0 \<in> set (session_table w1)"
      unfolding w1 by (rule mem_put_other)
    from assms(3) k have nk: "session_id s0 \<noteq> key" by simp
    have "s0 \<in> set (session_table w2)"
      using in1 nk assms(4) ap by (rule apply_decision_mem)
    with w2 show ?thesis by simp
  qed
qed


text \<open>
  Why the statement below is about the sender's most recent session. Here the most
  recent session, S0, is completed and the older session S1 is active with a stored
  message. The query reads S0 only and returns nothing, so the cycle puts the session
  S2 although S1 is active: the sender has two active sessions afterwards, with a
  decision that does not reopen.
\<close>

lemma older_active_session_not_seen:
  "count_active demo_shadowed_world ''155512345'' = 1
   \<and> query_active (session_table demo_shadowed_world) ''155512345'' = []
   \<and> \<not> query_sees_active demo_shadowed_world ''155512345''
   \<and> \<not> cycle_reopens (demo_env (demo_answer ''clean'') no_faults) demo_shadowed_world
          ''155512345''
   \<and> session_states
        (snd (reply_user (demo_env (demo_answer ''clean'') no_faults) demo_shadowed_world
           ''155512345'')) =
        [(''S2'', Some ''155512345'', Some ''active''),
         (''S0'', Some ''155512345'', Some ''completed''),
         (''S1'', Some ''155512345'', Some ''active'')]
   \<and> count_active
        (snd (reply_user (demo_env (demo_answer ''clean'') no_faults) demo_shadowed_world
           ''155512345''))
        ''155512345'' = 2"
  by code_simp

text \<open>
  C1, amended. The statement is about a sender whose active sessions are exactly what
  the session query returns: the sender's most recent session if it is active, nothing
  otherwise. (1) In a reply cycle whose decision does not set \<open>reopen_session\<close>, if
  the query returns no session or one with a stored chat message, the same holds after
  the cycle, whatever fails in it, and so at most one session of the sender is active.
  (2) If the query returns a session with a stored chat message and the decision does
  not reopen, the cycle creates no session. (3) If the query returns no session, or
  one without a stored chat message, and the session store does not fail,
  \<open>get_reply_message\<close> puts a new active session for the sender and goes on with an
  empty history. (4) If the query returned a session without a stored chat message,
  that session stays in the table unchanged, still active, provided the generated
  session ids differ from its id.
\<close>

theorem one_active_session_preserved:
  "(query_sees_active w sender \<and> \<not> has_empty_active w sender
      \<and> \<not> cycle_reopens env w sender \<longrightarrow>
      query_sees_active (snd (reply_user env w sender)) sender
      \<and> count_active (snd (reply_user env w sender)) sender \<le> 1)
   \<and> (query_active (session_table w) sender \<noteq> [] \<and> \<not> has_empty_active w sender
      \<and> \<not> cycle_reopens env w sender \<longrightarrow>
      session_ids (snd (reply_user env w sender)) = session_ids w)
   \<and> ((query_active (session_table w) sender = [] \<or> has_empty_active w sender)
      \<and> \<not> fails env QuerySessions \<and> \<not> fails env QueryChats \<and> \<not> fails env PutNewSession \<longrightarrow>
      resolve_conversation env w sender =
        (Inr ([], uuid4 env NewSessionId),
         w\<lparr>session_table :=
             put_item (new_session (uuid4 env NewSessionId) sender (time env))
               (session_table w)\<rparr>))
   \<and> (query_active (session_table w) sender = s0 # others \<and> has_empty_active w sender
      \<and> session_id s0 \<noteq> uuid4 env NewSessionId
      \<and> session_id s0 \<noteq> uuid4 env ReopenedSessionId \<longrightarrow>
      s0 \<in> set (session_table (snd (reply_user env w sender))) \<and> is_active_of sender s0)"
proof -
  have tbl: "session_table (snd (reply_user env w sender)) =
      session_table (snd (get_reply_message env w sender))"
    by (rule reply_user_session_table)
  have part1: "query_sees_active (snd (reply_user env w sender)) sender
      \<and> count_active (snd (reply_user env w sender)) sender \<le> 1"
    if h: "query_sees_active w sender \<and> \<not> has_empty_active w sender
      \<and> \<not> cycle_reopens env w sender"
  proof -
    from h have "stale_sessions (session_table (snd (get_reply_message env w sender))) sender = []"
      by (intro get_reply_stale) simp_all
    then have q: "query_sees_active (snd (reply_user env w sender)) sender"
      by (simp only: query_sees_active_iff tbl)
    then have "count_active (snd (reply_user env w sender)) sender \<le> 1"
      by (rule query_sees_count)
    with q show ?thesis by (rule conjI)
  qed
  have part2: "session_ids (snd (reply_user env w sender)) = session_ids w"
    if h: "query_active (session_table w) sender \<noteq> [] \<and> \<not> has_empty_active w sender
      \<and> \<not> cycle_reopens env w sender"
  proof -
    from h have "session_ids (snd (get_reply_message env w sender)) = session_ids w"
      by (intro get_reply_ids) simp_all
    then show ?thesis by (simp only: session_ids_def tbl)
  qed
  have part3: "resolve_conversation env w sender =
      (Inr ([], uuid4 env NewSessionId),
       w\<lparr>session_table :=
           put_item (new_session (uuid4 env NewSessionId) sender (time env))
             (session_table w)\<rparr>)"
    if h: "(query_active (session_table w) sender = [] \<or> has_empty_active w sender)
      \<and> \<not> fails env QuerySessions \<and> \<not> fails env QueryChats \<and> \<not> fails env PutNewSession"
    using h by (intro resolve_new) simp_all
  have part4: "s0 \<in> set (session_table (snd (reply_user env w sender))) \<and> is_active_of sender s0"
    if h: "query_active (session_table w) sender = s0 # others \<and> has_empty_active w sender
      \<and> session_id s0 \<noteq> uuid4 env NewSessionId
      \<and> session_id s0 \<noteq> uuid4 env ReopenedSessionId"
  proof -
    from h have q: "query_active (session_table w) sender = s0 # others" by (rule conjunct1)
    from h have "s0 \<in> set (session_table (snd (get_reply_message env w sender)))"
      by (intro get_reply_keeps [where others = others]) simp_all
    then have "s0 \<in> set (session_table (snd (reply_user env w sender)))"
      by (simp only: tbl)
    moreover have "is_active_of sender s0"
      using query_active_Cons [OF q] by (elim conjE)
    ultimately show ?thesis by (rule conjI)
  qed
  show ?thesis
    by (intro conjI; rule impI; erule part1 part2 part3 part4)
qed

text \<open>
  Three cycles with a classifier that asks for the product. On the session S1, which
  has one stored message, nothing is created. From an empty store the cycle puts the
  session S2, the sender's only active session afterwards. On S1 without a stored
  message the cycle puts S2 as well, and S1 stays as it was, active.
\<close>

theorem one_active_session_preserved_witness:
  "query_sees_active demo_world ''155512345''
   \<and> \<not> has_empty_active demo_world ''155512345''
   \<and> \<not> cycle_reopens (demo_env (demo_answer ''clean'') no_faults) demo_world ''155512345''
   \<and> query_active (session_table demo_world) ''155512345'' = [demo_session]
   \<and> query_sees_active
        (snd (reply_user (demo_env (demo_answer ''clean'') no_faults) demo_world ''155512345''))
        ''155512345''
   \<and> count_active
        (snd (reply_user (demo_env (demo_answer ''clean'') no_faults) demo_world ''155512345''))
        ''155512345'' \<le> 1
   \<and> session_ids
        (snd (reply_user (demo_env (demo_answer ''clean'') no_faults) demo_world ''155512345''))
        = session_ids demo_world
   \<and> query_sees_active empty_world ''155512345''
   \<and> query_active (session_table empty_world) ''155512345'' = []
   \<and> \<not> cycle_reopens (demo_env (demo_answer ''clean'') no_faults) empty_world ''155512345''
   \<and> resolve_conversation (demo_env (demo_answer ''clean'') no_faults) empty_world ''155512345''
        = (Inr ([], ''S2''),
           empty_world\<lparr>session_table := [new_session ''S2'' ''155512345'' 1000]\<rparr>)
   \<and> count_active
        (snd (reply_user (demo_env (demo_answer ''clean'') no_faults) empty_world ''155512345''))
        ''155512345'' \<le> 1
   \<and> has_empty_active demo_stale_world ''155512345''
   \<and> query_active (session_table demo_stale_world) ''155512345'' = [demo_session]
   \<and> resolve_conversation (demo_env (demo_answer ''clean'') no_faults) demo_stale_world
        ''155512345''
        = (Inr ([], ''S2''),
           demo_stale_world\<lparr>session_table :=
             [new_session ''S2'' ''155512345'' 1000, demo_session]\<rparr>)
   \<and> demo_session \<in> set (session_table
        (snd (reply_user (demo_env (demo_answer ''clean'') no_faults) demo_stale_world
           ''155512345'')))
   \<and> is_active_of ''155512345'' demo_session"
proof -
  let ?E = "demo_env (demo_answer ''clean'') no_faults"
  let ?S = "''155512345''"
  have a1: "query_sees_active demo_world ?S"
    by code_simp
  have a2: "\<not> has_empty_active demo_world ?S"
    by code_simp
  have a3: "\<not> cycle_reopens ?E demo_world ?S"
    by code_simp
  have a4: "query_active (session_table demo_world) ?S = [demo_session]"
    by code_simp
  have b1: "query_sees_active empty_world ?S"
    by code_simp
  have b2: "query_active (session_table empty_world) ?S = []"
    by code_simp
  have b3: "\<not> cycle_reopens ?E empty_world ?S"
    by code_simp
  have b4: "\<not> has_empty_active empty_world ?S"
    by code_simp
  have c1: "has_empty_active demo_stale_world ?S"
    by code_simp
  have c2: "query_active (session_table demo_stale_world) ?S = [demo_session]"
    by code_simp
  have ok: "\<not> fails ?E QuerySessions" "\<not> fails ?E QueryChats" "\<not> fails ?E PutNewSession"
    by (simp_all add: demo_env_def no_faults_def)
  have ids: "uuid4 ?E NewSessionId = ''S2''" "uuid4 ?E ReopenedSessionId = ''S3''"
      "time ?E = 1000" "session_id demo_session = ''S1''"
    by (simp_all add: demo_env_def demo_session_def new_session_def)
  have p1: "put_item (new_session ''S2'' ?S 1000) (session_table empty_world)
      = [new_session ''S2'' ?S 1000]"
    by (simp add: put_item_def empty_world_def)
  have p2: "put_item (new_session ''S2'' ?S 1000) (session_table demo_stale_world)
      = [new_session ''S2'' ?S 1000, demo_session]"
    by (simp add: put_item_def demo_stale_world_def demo_session_def new_session_def)
  note on_s1 = one_active_session_preserved
    [where w = demo_world and sender = ?S and env = ?E and ?s0.0 = demo_session and others = "[]"]
  note on_empty = one_active_session_preserved
    [where w = empty_world and sender = ?S and env = ?E and ?s0.0 = demo_session
       and others = "[]"]
  note on_stale = one_active_session_preserved
    [where w = demo_stale_world and sender = ?S and env = ?E and ?s0.0 = demo_session
       and others = "[]"]
  have r1: "query_sees_active (snd (reply_user ?E demo_world ?S)) ?S
      \<and> count_active (snd (reply_user ?E demo_world ?S)) ?S \<le> 1"
    using on_s1 a1 a2 a3 by (simp only: simp_thms)
  have r2: "session_ids (snd (reply_user ?E demo_world ?S)) = session_ids demo_world"
    using on_s1 a2 a3 a4 by (simp only: simp_thms list.simps)
  have r3: "count_active (snd (reply_user ?E empty_world ?S)) ?S \<le> 1"
    using on_empty b1 b4 b3 by (simp only: simp_thms)
  have r4: "resolve_conversation ?E empty_world ?S
      = (Inr ([], ''S2''), empty_world\<lparr>session_table := [new_session ''S2'' ?S 1000]\<rparr>)"
    using on_empty b2 ok by (simp only: simp_thms ids p1)
  have r5: "resolve_conversation ?E demo_stale_world ?S
      = (Inr ([], ''S2''),
         demo_stale_world\<lparr>session_table := [new_session ''S2'' ?S 1000, demo_session]\<rparr>)"
    using on_stale c1 ok by (simp only: simp_thms ids p2)
  have r6: "demo_session \<in> set (session_table (snd (reply_user ?E demo_stale_world ?S)))
      \<and> is_active_of ?S demo_session"
    using on_stale c1 c2 by (simp add: ids)
  show ?thesis
    using a1 a2 a3 a4 b1 b2 b3 c1 c2 r1 r2 r3 r4 r5 r6 by (simp only: simp_thms)
qed

end
